theory Spec2Isabelle
  imports Main
begin

section \<open>The JSON value tree and the Python runtime\<close>

text \<open>
  \<^verbatim>\<open>json.load\<close> hands the converter a tree of Python objects: \<^verbatim>\<open>None\<close>, \<^verbatim>\<open>bool\<close>,
  \<^verbatim>\<open>int\<close>, \<^verbatim>\<open>float\<close>, \<^verbatim>\<open>str\<close>, \<^verbatim>\<open>list\<close> and \<^verbatim>\<open>dict\<close> (keys in insertion order).
  Python integers are unbounded, so they are \<^typ>\<open>int\<close>. Floating-point numbers are kept
  abstract: the type \<open>'f\<close> stands for \<^verbatim>\<open>float\<close>, and its arithmetic is a parameter of the
  model (the record \<open>runtime\<close> below), so every theorem holds for any floating-point
  arithmetic. A \<^typ>\<open>string\<close> is a list of characters; a \<^typ>\<open>char\<close> stands for a code
  point below 256. The limits of the interpreter (recursion depth, memory) are not
  modelled: every function here is total.
\<close>

datatype 'f pyval =
    PNone
  | PBool bool
  | PInt int
  | PFloat 'f
  | PStr string
  | PList "'f pyval list"
  | PDict "(string \<times> 'f pyval) list"

text \<open>
  The messages of \<^verbatim>\<open>ConfigError\<close>, one constructor for each \<^verbatim>\<open>raise\<close> of the source,
  with the values the message is formatted from.
\<close>

datatype 'f config_error =
    NotEnoughOperands string
    \<comment> \<open>\<^verbatim>\<open>Not enough operands for '{t}' operation.\<close>\<close>
  | NotEnoughOperandsMax
    \<comment> \<open>\<^verbatim>\<open>Not enough operands for max.\<close>\<close>
  | NotEnoughOperandsAbs
    \<comment> \<open>\<^verbatim>\<open>Not enough operands for abs.\<close>\<close>
  | ArithmeticOnlyNumbers
    \<comment> \<open>\<^verbatim>\<open>Arithmetic operations are allowed only on numbers.\<close>\<close>
  | MaxOnlyNumbers
    \<comment> \<open>\<^verbatim>\<open>max is allowed only on numbers.\<close>\<close>
  | AbsOnlyNumbers
    \<comment> \<open>\<^verbatim>\<open>abs is allowed only on numbers.\<close>\<close>
  | CannotUseArray string
    \<comment> \<open>\<^verbatim>\<open>Cannot use array '{t}' in arithmetic expression.\<close>\<close>
  | UnknownToken string
    \<comment> \<open>\<^verbatim>\<open>Unknown token '{t}' in expression.\<close>\<close>
  | InvalidStack "'f pyval list"
    \<comment> \<open>\<^verbatim>\<open>Invalid expression evaluation. Stack: \<close> and the stack\<close>
  | DictionariesNotAllowed
    \<comment> \<open>\<^verbatim>\<open>Dictionaries not allowed outside 'constants'.\<close>\<close>
  | StringNotSupported string
    \<comment> \<open>\<^verbatim>\<open>String '{val}' not supported as a value.\<close>\<close>
  | UnsupportedType "'f pyval"
    \<comment> \<open>\<^verbatim>\<open>Unsupported JSON value type: {type(val)}\<close>\<close>
  | InvalidConstantName string
    \<comment> \<open>\<^verbatim>\<open>Invalid constant name '{k}'.\<close>\<close>
  | ArrayOnlyNumbers
    \<comment> \<open>\<^verbatim>\<open>Array can contain only numbers or nested arrays.\<close>\<close>
  | ConstantNotNumberOrArray string
    \<comment> \<open>\<^verbatim>\<open>Constant '{k}' must be a number or an array.\<close>\<close>

text \<open>
  The exceptions the core can raise. Besides \<^verbatim>\<open>ConfigError\<close> there are two that the source
  does not catch. Adding, subtracting or multiplying an \<^verbatim>\<open>int\<close> and a \<^verbatim>\<open>float\<close> converts the
  \<^verbatim>\<open>int\<close>, and Python raises \<^verbatim>\<open>OverflowError\<close> when it is too large for a \<^verbatim>\<open>float\<close>. And
  \<^verbatim>\<open>str\<close> of an integer of more than 4300 decimal digits raises \<^verbatim>\<open>ValueError\<close>.
\<close>

datatype 'f exn = ConfigError "'f config_error" | OverflowError | ValueError

text \<open>
  What the model takes from the Python runtime without looking inside: the arithmetic,
  the comparisons and the text form of \<^verbatim>\<open>float\<close>, the quoted form of a string
  (\<^verbatim>\<open>repr\<close>, which never fails), and the text form of a dictionary, where \<open>None\<close> stands for
  the \<^verbatim>\<open>ValueError\<close> of an integer inside it that is too long to print.
\<close>

record 'f runtime =
  float_of_int :: "int \<Rightarrow> 'f option"
  float_add :: "'f \<Rightarrow> 'f \<Rightarrow> 'f"
  float_sub :: "'f \<Rightarrow> 'f \<Rightarrow> 'f"
  float_mul :: "'f \<Rightarrow> 'f \<Rightarrow> 'f"
  float_abs :: "'f \<Rightarrow> 'f"
  float_gt :: "'f \<Rightarrow> 'f \<Rightarrow> bool"
  int_gt_float :: "int \<Rightarrow> 'f \<Rightarrow> bool"
  float_gt_int :: "'f \<Rightarrow> int \<Rightarrow> bool"
  str_float :: "'f \<Rightarrow> string"
  repr_str :: "string \<Rightarrow> string"
  str_dict :: "(string \<times> 'f pyval) list \<Rightarrow> string option"

subsection \<open>Numbers\<close>

text \<open>
  \<^verbatim>\<open>isinstance(v, (int, float))\<close>. In Python \<^verbatim>\<open>bool\<close> is a subclass of \<^verbatim>\<open>int\<close>, so the test
  holds for \<^verbatim>\<open>True\<close> and \<^verbatim>\<open>False\<close> too, and they count as 1 and 0 in arithmetic.
\<close>

datatype 'f number = NInt int | NFloat 'f

fun number_of :: "'f pyval \<Rightarrow> 'f number option" where
  "number_of (PBool b) = Some (NInt (if b then 1 else 0))"
| "number_of (PInt i) = Some (NInt i)"
| "number_of (PFloat x) = Some (NFloat x)"
| "number_of _ = None"

definition is_number :: "'f pyval \<Rightarrow> bool" where
  "is_number v = (number_of v \<noteq> None)"

fun is_list :: "'f pyval \<Rightarrow> bool" where
  "is_list (PList _) = True"
| "is_list _ = False"

text \<open>
  \<^verbatim>\<open>a + b\<close>, \<^verbatim>\<open>a - b\<close>, \<^verbatim>\<open>a * b\<close> on numbers: integer arithmetic when both are integers,
  floating-point arithmetic after converting the integer operand otherwise.
\<close>

fun py_arith ::
  "'f runtime \<Rightarrow> (int \<Rightarrow> int \<Rightarrow> int) \<Rightarrow> ('f \<Rightarrow> 'f \<Rightarrow> 'f) \<Rightarrow> 'f number \<Rightarrow> 'f number \<Rightarrow> 'f exn + 'f pyval"
where
  "py_arith R opi opf (NInt i) (NInt j) = Inr (PInt (opi i j))"
| "py_arith R opi opf (NInt i) (NFloat y) =
     (case float_of_int R i of None \<Rightarrow> Inl OverflowError | Some x \<Rightarrow> Inr (PFloat (opf x y)))"
| "py_arith R opi opf (NFloat x) (NInt j) =
     (case float_of_int R j of None \<Rightarrow> Inl OverflowError | Some y \<Rightarrow> Inr (PFloat (opf x y)))"
| "py_arith R opi opf (NFloat x) (NFloat y) = Inr (PFloat (opf x y))"

definition py_add :: "'f runtime \<Rightarrow> 'f number \<Rightarrow> 'f number \<Rightarrow> 'f exn + 'f pyval" where
  "py_add R = py_arith R (+) (float_add R)"

definition py_sub :: "'f runtime \<Rightarrow> 'f number \<Rightarrow> 'f number \<Rightarrow> 'f exn + 'f pyval" where
  "py_sub R = py_arith R (-) (float_sub R)"

definition py_mul :: "'f runtime \<Rightarrow> 'f number \<Rightarrow> 'f number \<Rightarrow> 'f exn + 'f pyval" where
  "py_mul R = py_arith R (*) (float_mul R)"

text \<open>\<^verbatim>\<open>x > y\<close> on numbers; Python compares an \<^verbatim>\<open>int\<close> with a \<^verbatim>\<open>float\<close> without converting.\<close>

fun py_gt :: "'f runtime \<Rightarrow> 'f number \<Rightarrow> 'f number \<Rightarrow> bool" where
  "py_gt R (NInt i) (NInt j) = (i > j)"
| "py_gt R (NInt i) (NFloat y) = int_gt_float R i y"
| "py_gt R (NFloat x) (NInt j) = float_gt_int R x j"
| "py_gt R (NFloat x) (NFloat y) = float_gt R x y"

text \<open>
  \<^verbatim>\<open>max(a, b)\<close> keeps the first argument unless the second is greater, and returns the
  object itself (\<^verbatim>\<open>max(True, 1)\<close> is \<^verbatim>\<open>True\<close>). The second and third arguments are the
  objects, the last two their numeric values.
\<close>

definition py_max :: "'f runtime \<Rightarrow> 'f pyval \<Rightarrow> 'f pyval \<Rightarrow> 'f number \<Rightarrow> 'f number \<Rightarrow> 'f pyval" where
  "py_max R a b x y = (if py_gt R y x then b else a)"

fun py_abs :: "'f runtime \<Rightarrow> 'f number \<Rightarrow> 'f pyval" where
  "py_abs R (NInt i) = PInt \<bar>i\<bar>"
| "py_abs R (NFloat x) = PFloat (float_abs R x)"

section \<open>Strings\<close>

text \<open>
  \<^verbatim>\<open>str.isspace\<close> on one character, for code points below 256: tab to carriage return,
  the four separators 28 to 31, space, next-line (133) and no-break space (160).
  \<^verbatim>\<open>str.strip()\<close> and \<^verbatim>\<open>str.split()\<close> use this set.
\<close>

definition py_isspace :: "char \<Rightarrow> bool" where
  "py_isspace c =
     (let n = (of_char c :: nat)
      in (9 \<le> n \<and> n \<le> 13) \<or> (28 \<le> n \<and> n \<le> 32) \<or> n = 133 \<or> n = 160)"

definition strip :: "string \<Rightarrow> string" where
  "strip s = rev (dropWhile py_isspace (rev (dropWhile py_isspace s)))"

text \<open>
  \<^verbatim>\<open>s.split()\<close>: the maximal runs of characters that are not whitespace, in order. The
  first argument is the run being read.
\<close>

fun split_from :: "string \<Rightarrow> string \<Rightarrow> string list" where
  "split_from w [] = (if w = [] then [] else [w])"
| "split_from w (c # cs) =
     (if py_isspace c then (if w = [] then split_from [] cs else w # split_from [] cs)
      else split_from (w @ [c]) cs)"

definition split :: "string \<Rightarrow> string list" where
  "split s = split_from [] s"

text \<open>\<^verbatim>\<open>sep.join(xs)\<close>.\<close>

fun join :: "string \<Rightarrow> string list \<Rightarrow> string" where
  "join sep [] = []"
| "join sep [x] = x"
| "join sep (x # y # ys) = x @ sep @ join sep (y # ys)"

text \<open>\<^verbatim>\<open>val.startswith("@(")\<close>, \<^verbatim>\<open>val.endswith(")")\<close> and the slice \<^verbatim>\<open>val[2:-1]\<close>.\<close>

definition startswith :: "string \<Rightarrow> string \<Rightarrow> bool" where
  "startswith s p = (take (length p) s = p)"

definition endswith :: "string \<Rightarrow> string \<Rightarrow> bool" where
  "endswith s p = (length p \<le> length s \<and> drop (length s - length p) s = p)"

definition slice_2_m1 :: "string \<Rightarrow> string" where
  "slice_2_m1 s = drop 2 (take (length s - 1) s)"

subsection \<open>Integer literals: \<^verbatim>\<open>int(t)\<close>\<close>

text \<open>
  \<^verbatim>\<open>int(t)\<close> on a string reads: whitespace, an optional sign, decimal digits in which
  single underscores may stand between two digits, whitespace. Anything else raises
  \<^verbatim>\<open>ValueError\<close>, which is \<open>None\<close> here. The whitespace \<^verbatim>\<open>int\<close> skips is tab to carriage
  return and space and, beyond ASCII, next-line and no-break space; the separators 28 to
  31 are whitespace for \<^verbatim>\<open>split\<close> but not for \<^verbatim>\<open>int\<close>. The interpreter limits the
  conversion between integers and decimal text: with its default setting
  (\<^verbatim>\<open>sys.get_int_max_str_digits()\<close> is 4300), \<^verbatim>\<open>int\<close> raises \<^verbatim>\<open>ValueError\<close> on more than 4300
  digits, leading zeros counted, underscores not.
\<close>

definition max_str_digits :: nat where
  "max_str_digits = 4300"

definition int_space :: "char \<Rightarrow> bool" where
  "int_space c =
     (let n = (of_char c :: nat) in (9 \<le> n \<and> n \<le> 13) \<or> n = 32 \<or> n = 133 \<or> n = 160)"

definition is_digit :: "char \<Rightarrow> bool" where
  "is_digit c = (let n = (of_char c :: nat) in 48 \<le> n \<and> n \<le> 57)"

definition digit_or_underscore :: "char \<Rightarrow> bool" where
  "digit_or_underscore c = (is_digit c \<or> c = CHR ''_'')"

fun double_underscore :: "string \<Rightarrow> bool" where
  "double_underscore (a # b # cs) =
     ((a = CHR ''_'' \<and> b = CHR ''_'') \<or> double_underscore (b # cs))"
| "double_underscore _ = False"

text \<open>The value of a run of digits and underscores, read left to right from \<open>acc\<close>.\<close>

fun digits_value :: "nat \<Rightarrow> string \<Rightarrow> nat" where
  "digits_value acc [] = acc"
| "digits_value acc (c # cs) =
     (if c = CHR ''_'' then digits_value acc cs
      else digits_value (10 * acc + (of_char c - 48)) cs)"

definition py_int :: "string \<Rightarrow> int option" where
  "py_int t =
     (let s1 = dropWhile int_space t;
          negative = (s1 \<noteq> [] \<and> hd s1 = CHR ''-'');
          s2 = (if s1 \<noteq> [] \<and> (hd s1 = CHR ''+'' \<or> hd s1 = CHR ''-'') then tl s1 else s1);
          ds = takeWhile digit_or_underscore s2;
          rest = dropWhile digit_or_underscore s2
      in if ds \<noteq> [] \<and> hd ds \<noteq> CHR ''_'' \<and> last ds \<noteq> CHR ''_'' \<and> \<not> double_underscore ds
            \<and> list_all int_space rest
            \<and> length (filter is_digit ds) \<le> max_str_digits
         then Some (if negative then - int (digits_value 0 ds) else int (digits_value 0 ds))
         else None)"

subsection \<open>Text forms: \<^verbatim>\<open>str(v)\<close> and \<^verbatim>\<open>repr(v)\<close>\<close>

text \<open>
  The decimal numeral of an integer, with \<^verbatim>\<open>-\<close> before a negative one.
  \<open>digit_char\<close> is only used below 10.
\<close>

definition digit_char :: "nat \<Rightarrow> char" where
  "digit_char d = ''0123456789'' ! d"

fun str_nat :: "nat \<Rightarrow> string" where
  "str_nat n = (if n < 10 then [digit_char n] else str_nat (n div 10) @ [digit_char (n mod 10)])"

declare str_nat.simps [simp del]

definition str_int :: "int \<Rightarrow> string" where
  "str_int i = (if i < 0 then CHR ''-'' # str_nat (nat (- i)) else str_nat (nat i))"

text \<open>
  \<^verbatim>\<open>repr(v)\<close>: for an integer the numeral, or \<^verbatim>\<open>ValueError\<close> when it has more than 4300
  digits (the sign is not counted); for a list the \<^verbatim>\<open>repr\<close> of the elements, in order,
  between brackets. \<^verbatim>\<open>str(v)\<close> is \<^verbatim>\<open>repr(v)\<close> except on a string, which is its own text.
\<close>

primrec
  py_repr :: "'f runtime \<Rightarrow> 'f pyval \<Rightarrow> 'f exn + string" and
  py_reprs :: "'f runtime \<Rightarrow> 'f pyval list \<Rightarrow> 'f exn + string list"
where
  "py_repr R PNone = Inr ''None''"
| "py_repr R (PBool b) = Inr (if b then ''True'' else ''False'')"
| "py_repr R (PInt i) =
     (if max_str_digits < length (str_nat (nat \<bar>i\<bar>)) then Inl ValueError else Inr (str_int i))"
| "py_repr R (PFloat x) = Inr (str_float R x)"
| "py_repr R (PStr s) = Inr (repr_str R s)"
| "py_repr R (PList xs) =
     (case py_reprs R xs of
        Inl e \<Rightarrow> Inl e
      | Inr ss \<Rightarrow> Inr (''['' @ join '', '' ss @ '']''))"
| "py_repr R (PDict kvs) =
     (case str_dict R kvs of None \<Rightarrow> Inl ValueError | Some s \<Rightarrow> Inr s)"
| "py_reprs R [] = Inr []"
| "py_reprs R (x # xs) =
     (case py_repr R x of
        Inl e \<Rightarrow> Inl e
      | Inr s \<Rightarrow>
          (case py_reprs R xs of
             Inl e \<Rightarrow> Inl e
           | Inr ss \<Rightarrow> Inr (s # ss)))"

definition py_str :: "'f runtime \<Rightarrow> 'f pyval \<Rightarrow> 'f exn + string" where
  "py_str R v = (case v of PStr s \<Rightarrow> Inr s | _ \<Rightarrow> py_repr R v)"

section \<open>The expression evaluator: \<^verbatim>\<open>evaluate_postfix_expression\<close>\<close>

type_synonym 'f constants = "string \<rightharpoonup> 'f pyval"

text \<open>
  The chain \<^verbatim>\<open>if t == '+': ... elif t == '-': ... elif t == '*': ...\<close> of the first branch,
  where \<open>t\<close> is one of the three.
\<close>

definition py_binop :: "'f runtime \<Rightarrow> string \<Rightarrow> 'f number \<Rightarrow> 'f number \<Rightarrow> 'f exn + 'f pyval" where
  "py_binop R t x y =
     (if t = ''+'' then py_add R x y
      else if t = ''-'' then py_sub R x y
      else py_mul R x y)"

text \<open>
  The body of the loop \<^verbatim>\<open>for t in tokens\<close>, on the stack as the Python list holds it: the
  top is the last element, \<^verbatim>\<open>stack.pop()\<close> takes it and \<^verbatim>\<open>stack.append(v)\<close> adds at the end.
\<close>

definition eval_token ::
  "'f runtime \<Rightarrow> 'f constants \<Rightarrow> string \<Rightarrow> 'f pyval list \<Rightarrow> 'f exn + 'f pyval list"
where
  "eval_token R constants t stack =
     (if t \<in> set [''+'', ''-'', ''*''] then
        if length stack < 2 then Inl (ConfigError (NotEnoughOperands t))
        else
          let b = last stack; a = last (butlast stack); stack' = butlast (butlast stack)
          in (case (number_of a, number_of b) of
                (Some x, Some y) \<Rightarrow>
                  (case py_binop R t x y of
                     Inl e \<Rightarrow> Inl e
                   | Inr v \<Rightarrow> Inr (stack' @ [v]))
              | _ \<Rightarrow> Inl (ConfigError ArithmeticOnlyNumbers))
      else if t = ''max'' then
        if length stack < 2 then Inl (ConfigError NotEnoughOperandsMax)
        else
          let b = last stack; a = last (butlast stack); stack' = butlast (butlast stack)
          in (case (number_of a, number_of b) of
                (Some x, Some y) \<Rightarrow> Inr (stack' @ [py_max R a b x y])
              | _ \<Rightarrow> Inl (ConfigError MaxOnlyNumbers))
      else if t = ''abs'' then
        if length stack < 1 then Inl (ConfigError NotEnoughOperandsAbs)
        else
          let a = last stack; stack' = butlast stack
          in (case number_of a of
                Some x \<Rightarrow> Inr (stack' @ [py_abs R x])
              | None \<Rightarrow> Inl (ConfigError AbsOnlyNumbers))
      else
        (case constants t of
           Some val \<Rightarrow>
             if is_list val then Inl (ConfigError (CannotUseArray t))
             else Inr (stack @ [val])
         | None \<Rightarrow>
             (case py_int t of
                Some num \<Rightarrow> Inr (stack @ [PInt num])
              | None \<Rightarrow> Inl (ConfigError (UnknownToken t)))))"

text \<open>The loop: the first exception ends it.\<close>

fun eval_tokens ::
  "'f runtime \<Rightarrow> 'f constants \<Rightarrow> string list \<Rightarrow> 'f pyval list \<Rightarrow> 'f exn + 'f pyval list"
where
  "eval_tokens R constants [] stack = Inr stack"
| "eval_tokens R constants (t # ts) stack =
     (case eval_token R constants t stack of
        Inl e \<Rightarrow> Inl e
      | Inr stack' \<Rightarrow> eval_tokens R constants ts stack')"

text \<open>
  The message of the last \<^verbatim>\<open>raise\<close> is built from \<^verbatim>\<open>str(stack)\<close>, so an exception of
  \<^verbatim>\<open>str\<close> comes before the \<^verbatim>\<open>ConfigError\<close>.
\<close>

definition evaluate_postfix_expression ::
  "'f runtime \<Rightarrow> string list \<Rightarrow> 'f constants \<Rightarrow> 'f exn + 'f pyval"
where
  "evaluate_postfix_expression R tokens constants =
     (case eval_tokens R constants tokens [] of
        Inl e \<Rightarrow> Inl e
      | Inr stack \<Rightarrow>
          if length stack \<noteq> 1 then
            (case py_reprs R stack of
               Inl e \<Rightarrow> Inl e
             | Inr ss \<Rightarrow> Inl (ConfigError (InvalidStack stack)))
          else Inr (stack ! 0))"

section \<open>The value transducer: \<^verbatim>\<open>process_value\<close>\<close>

text \<open>
  \<open>process_values\<close> is the list comprehension \<^verbatim>\<open>[process_value(x, constants) for x in val]\<close>:
  the elements in order, ending at the first exception.
\<close>

primrec
  process_value :: "'f runtime \<Rightarrow> 'f pyval \<Rightarrow> 'f constants \<Rightarrow> 'f exn + string" and
  process_values :: "'f runtime \<Rightarrow> 'f pyval list \<Rightarrow> 'f constants \<Rightarrow> 'f exn + string list"
where
  "process_value R (PDict kvs) constants = Inl (ConfigError DictionariesNotAllowed)"
| "process_value R (PList xs) constants =
     (case process_values R xs constants of
        Inl e \<Rightarrow> Inl e
      | Inr transformed \<Rightarrow> Inr (''['' @ join '', '' transformed @ '']''))"
| "process_value R (PStr val) constants =
     (if startswith val ''@('' \<and> endswith val '')'' then
        (case evaluate_postfix_expression R (split (strip (slice_2_m1 val))) constants of
           Inl e \<Rightarrow> Inl e
         | Inr result \<Rightarrow> py_str R result)
      else Inl (ConfigError (StringNotSupported val)))"
| "process_value R (PBool b) constants = py_str R (PBool b)"
| "process_value R (PInt i) constants = py_str R (PInt i)"
| "process_value R (PFloat x) constants = py_str R (PFloat x)"
| "process_value R PNone constants = Inl (ConfigError (UnsupportedType PNone))"
| "process_values R [] constants = Inr []"
| "process_values R (x # xs) constants =
     (case process_value R x constants of
        Inl e \<Rightarrow> Inl e
      | Inr s \<Rightarrow>
          (case process_values R xs constants of
             Inl e \<Rightarrow> Inl e
           | Inr ss \<Rightarrow> Inr (s # ss)))"

section \<open>The constants section in \<^verbatim>\<open>main\<close>\<close>

text \<open>
  \<^verbatim>\<open>name_pattern.match(k)\<close> for \<^verbatim>\<open>^[a-z][a-z0-9_]*$\<close>. In Python \<^verbatim>\<open>$\<close> also matches just
  before a newline that ends the string.
\<close>

definition is_lower :: "char \<Rightarrow> bool" where
  "is_lower c = (let n = (of_char c :: nat) in 97 \<le> n \<and> n \<le> 122)"

definition name_char :: "char \<Rightarrow> bool" where
  "name_char c = (is_lower c \<or> is_digit c \<or> c = CHR ''_'')"

fun name_pattern_match :: "string \<Rightarrow> bool" where
  "name_pattern_match [] = False"
| "name_pattern_match (c # cs) =
     (is_lower c \<and>
      (list_all name_char cs \<or>
       (cs \<noteq> [] \<and> last cs = CHR 0x0A \<and> list_all name_char (butlast cs))))"

text \<open>\<^verbatim>\<open>check_array\<close>: \<open>check_elem\<close> is the body of its loop.\<close>

primrec
  check_elem :: "'f pyval \<Rightarrow> 'f exn + unit" and
  check_array :: "'f pyval list \<Rightarrow> 'f exn + unit"
where
  "check_elem PNone = Inl (ConfigError ArrayOnlyNumbers)"
| "check_elem (PBool b) = Inr ()"
| "check_elem (PInt i) = Inr ()"
| "check_elem (PFloat x) = Inr ()"
| "check_elem (PStr s) = Inl (ConfigError ArrayOnlyNumbers)"
| "check_elem (PList arr) = check_array arr"
| "check_elem (PDict kvs) = Inl (ConfigError ArrayOnlyNumbers)"
| "check_array [] = Inr ()"
| "check_array (elem # arr) =
     (case check_elem elem of Inl e \<Rightarrow> Inl e | Inr u \<Rightarrow> check_array arr)"

text \<open>
  The loop \<^verbatim>\<open>for k, v in constants_section.items()\<close> that builds \<^verbatim>\<open>constants\<close>, from the
  items in order and the dictionary built so far.
\<close>

fun build_constants ::
  "(string \<times> 'f pyval) list \<Rightarrow> 'f constants \<Rightarrow> 'f exn + 'f constants"
where
  "build_constants [] constants = Inr constants"
| "build_constants ((k, v) # kvs) constants =
     (if \<not> name_pattern_match k then Inl (ConfigError (InvalidConstantName k))
      else if is_number v then build_constants kvs (constants(k \<mapsto> v))
      else
        (case v of
           PList arr \<Rightarrow>
             (case check_array arr of
                Inl e \<Rightarrow> Inl e
              | Inr u \<Rightarrow> build_constants kvs (constants(k \<mapsto> v)))
         | _ \<Rightarrow> Inl (ConfigError (ConstantNotNumberOrArray k))))"



section \<open>Notions the specification uses\<close>

text \<open>The five operator tokens.\<close>

definition operators :: "string list" where
  "operators = [''+'', ''-'', ''*'', ''max'', ''abs'']"

text \<open>
  A well-formed expression, as a tree: a leaf is the text of an integer literal or the
  name of a constant. \<open>postfix\<close> writes the tree as its token sequence, left operand
  first, and \<open>expected\<close> is its value in integer arithmetic.
\<close>

datatype expr =
    ELit string
  | ERef string
  | EAdd expr expr
  | ESub expr expr
  | EMul expr expr
  | EMax expr expr
  | EAbs expr

fun postfix :: "expr \<Rightarrow> string list" where
  "postfix (ELit t) = [t]"
| "postfix (ERef c) = [c]"
| "postfix (EAdd a b) = postfix a @ postfix b @ [''+'']"
| "postfix (ESub a b) = postfix a @ postfix b @ [''-'']"
| "postfix (EMul a b) = postfix a @ postfix b @ [''*'']"
| "postfix (EMax a b) = postfix a @ postfix b @ [''max'']"
| "postfix (EAbs a) = postfix a @ [''abs'']"

fun expected :: "'f constants \<Rightarrow> expr \<Rightarrow> int" where
  "expected constants (ELit t) = (case py_int t of Some n \<Rightarrow> n | None \<Rightarrow> 0)"
| "expected constants (ERef c) = (case constants c of Some (PInt n) \<Rightarrow> n | _ \<Rightarrow> 0)"
| "expected constants (EAdd a b) = expected constants a + expected constants b"
| "expected constants (ESub a b) = expected constants a - expected constants b"
| "expected constants (EMul a b) = expected constants a * expected constants b"
| "expected constants (EMax a b) = max (expected constants a) (expected constants b)"
| "expected constants (EAbs a) = \<bar>expected constants a\<bar>"

text \<open>
  The leaves of a well-formed expression: a literal is a token that \<^verbatim>\<open>int\<close> reads and that
  is not the name of a constant; a reference is a name other than an operator that
  \<^verbatim>\<open>constants\<close> binds to an integer.
\<close>

fun well_formed :: "'f constants \<Rightarrow> expr \<Rightarrow> bool" where
  "well_formed constants (ELit t) = (constants t = None \<and> py_int t \<noteq> None)"
| "well_formed constants (ERef c) =
     (c \<notin> set operators \<and> (case constants c of Some (PInt n) \<Rightarrow> True | _ \<Rightarrow> False))"
| "well_formed constants (EAdd a b) = (well_formed constants a \<and> well_formed constants b)"
| "well_formed constants (ESub a b) = (well_formed constants a \<and> well_formed constants b)"
| "well_formed constants (EMul a b) = (well_formed constants a \<and> well_formed constants b)"
| "well_formed constants (EMax a b) = (well_formed constants a \<and> well_formed constants b)"
| "well_formed constants (EAbs a) = well_formed constants a"

text \<open>
  The weaker condition on the leaves that the shape of a token sequence needs: a literal
  as before, and a reference to any constant that is not bound to an array.
\<close>

fun leaves_defined :: "'f constants \<Rightarrow> expr \<Rightarrow> bool" where
  "leaves_defined constants (ELit t) = (constants t = None \<and> py_int t \<noteq> None)"
| "leaves_defined constants (ERef c) =
     (c \<notin> set operators \<and> (case constants c of Some v \<Rightarrow> \<not> is_list v | None \<Rightarrow> False))"
| "leaves_defined constants (EAdd a b) = (leaves_defined constants a \<and> leaves_defined constants b)"
| "leaves_defined constants (ESub a b) = (leaves_defined constants a \<and> leaves_defined constants b)"
| "leaves_defined constants (EMul a b) = (leaves_defined constants a \<and> leaves_defined constants b)"
| "leaves_defined constants (EMax a b) = (leaves_defined constants a \<and> leaves_defined constants b)"
| "leaves_defined constants (EAbs a) = leaves_defined constants a"

text \<open>
  The value of an expression computed on the tree, with Python's arithmetic: the left
  operand, then the right one, then the operator on the two values, each step ending at
  the first exception. \<open>on_numbers\<close> is the test that both operands are numbers.
\<close>

definition on_numbers ::
  "'f config_error \<Rightarrow> ('f pyval \<Rightarrow> 'f pyval \<Rightarrow> 'f number \<Rightarrow> 'f number \<Rightarrow> 'f exn + 'f pyval) \<Rightarrow>
   'f exn + 'f pyval \<Rightarrow> 'f exn + 'f pyval \<Rightarrow> 'f exn + 'f pyval"
where
  "on_numbers err f ra rb =
     (case ra of
        Inl e \<Rightarrow> Inl e
      | Inr a \<Rightarrow>
          (case rb of
             Inl e \<Rightarrow> Inl e
           | Inr b \<Rightarrow>
               (case (number_of a, number_of b) of
                  (Some x, Some y) \<Rightarrow> f a b x y
                | _ \<Rightarrow> Inl (ConfigError err))))"

fun tree_value :: "'f runtime \<Rightarrow> 'f constants \<Rightarrow> expr \<Rightarrow> 'f exn + 'f pyval" where
  "tree_value R constants (ELit t) = Inr (PInt (case py_int t of Some n \<Rightarrow> n | None \<Rightarrow> 0))"
| "tree_value R constants (ERef c) = Inr (case constants c of Some v \<Rightarrow> v | None \<Rightarrow> PNone)"
| "tree_value R constants (EAdd a b) =
     on_numbers ArithmeticOnlyNumbers (\<lambda>a b. py_add R)
       (tree_value R constants a) (tree_value R constants b)"
| "tree_value R constants (ESub a b) =
     on_numbers ArithmeticOnlyNumbers (\<lambda>a b. py_sub R)
       (tree_value R constants a) (tree_value R constants b)"
| "tree_value R constants (EMul a b) =
     on_numbers ArithmeticOnlyNumbers (\<lambda>a b. py_mul R)
       (tree_value R constants a) (tree_value R constants b)"
| "tree_value R constants (EMax a b) =
     on_numbers MaxOnlyNumbers (\<lambda>a b x y. Inr (py_max R a b x y))
       (tree_value R constants a) (tree_value R constants b)"
| "tree_value R constants (EAbs a) =
     (case tree_value R constants a of
        Inl e \<Rightarrow> Inl e
      | Inr v \<Rightarrow>
          (case number_of v of
             Some x \<Rightarrow> Inr (py_abs R x)
           | None \<Rightarrow> Inl (ConfigError AbsOnlyNumbers)))"

text \<open>
  What the validation of the constants section leaves in \<^verbatim>\<open>constants\<close>: every value passes
  \<^verbatim>\<open>isinstance(v, (int, float))\<close> or is a list.
\<close>

definition numbers_or_arrays :: "'f constants \<Rightarrow> bool" where
  "numbers_or_arrays constants = (\<forall>t v. constants t = Some v \<longrightarrow> is_number v \<or> is_list v)"

text \<open>A number that \<^verbatim>\<open>str\<close> can print: an integer of at most 4300 digits, a boolean, a float.\<close>

definition short_number :: "'f pyval \<Rightarrow> bool" where
  "short_number v =
     (case v of
        PInt i \<Rightarrow> length (str_nat (nat \<bar>i\<bar>)) \<le> max_str_digits
      | PBool b \<Rightarrow> True
      | PFloat x \<Rightarrow> True
      | _ \<Rightarrow> False)"


text \<open>
  Closed statements below are stated for the runtime over the one-element type: all
  floats are one value, and what is concrete is when the conversion of an integer
  overflows, which for Python's 64-bit floats is from \<open>2 ^ 1024 - 2 ^ 970\<close> on in
  absolute value.
\<close>

definition unit_runtime :: "unit runtime" where
  "unit_runtime =
     \<lparr>float_of_int = (\<lambda>i. if \<bar>i\<bar> < 2 ^ 1024 - 2 ^ 970 then Some () else None),
      float_add = (\<lambda>x y. ()),
      float_sub = (\<lambda>x y. ()),
      float_mul = (\<lambda>x y. ()),
      float_abs = (\<lambda>x. ()),
      float_gt = (\<lambda>x y. False),
      int_gt_float = (\<lambda>i y. False),
      float_gt_int = (\<lambda>x j. False),
      str_float = (\<lambda>x. []),
      repr_str = (\<lambda>s. s),
      str_dict = (\<lambda>kvs. Some [])\<rparr>"

section \<open>The loop body, case by case\<close>

lemmas py_int_eval =
  py_int_def int_space_def digit_or_underscore_def is_digit_def max_str_digits_def

lemmas str_eval = py_str_def str_int_def str_nat.simps digit_char_def max_str_digits_def

text \<open>\<^verbatim>\<open>str\<close> and \<^verbatim>\<open>repr\<close> raise nothing but \<^verbatim>\<open>ValueError\<close>.\<close>

lemma py_repr_error:
  "(py_repr R v = Inl e \<longrightarrow> e = ValueError) \<and> (py_reprs R vs = Inl e \<longrightarrow> e = ValueError)"
  by (rule py_repr_py_reprs.induct
        [where ?P1.0 = "\<lambda>v. py_repr R v = Inl e \<longrightarrow> e = ValueError"
           and ?P2.0 = "\<lambda>vs. py_reprs R vs = Inl e \<longrightarrow> e = ValueError"])
     (auto split: sum.splits option.splits if_splits)

lemma py_reprs_error: "py_reprs R vs = Inl e \<Longrightarrow> e = ValueError"
  using py_repr_error[of R PNone e vs] by simp

lemma py_str_error: "py_str R v = Inl e \<Longrightarrow> e = ValueError"
  using py_repr_error[of R v e "[]"] by (cases v) (simp_all add: py_str_def)

lemma py_reprs_short: "list_all short_number vs \<Longrightarrow> \<exists>ss. py_reprs R vs = Inr ss"
proof (induction vs)
  case Nil
  show ?case by simp
next
  case (Cons v vs)
  then obtain ss where "py_reprs R vs = Inr ss" by auto
  moreover from Cons.prems have "short_number v" by simp
  then have "\<exists>s. py_repr R v = Inr s"
    by (cases v) (auto simp: short_number_def)
  ultimately show ?case by auto
qed

lemma py_int_operator: "t \<in> set operators \<Longrightarrow> py_int t = None"
  by (auto simp: operators_def py_int_def int_space_def digit_or_underscore_def is_digit_def)

lemma eval_tokens_append:
  "eval_tokens R cs (xs @ ys) st =
     (case eval_tokens R cs xs st of Inl e \<Rightarrow> Inl e | Inr st' \<Rightarrow> eval_tokens R cs ys st')"
  by (induction xs arbitrary: st) (auto split: sum.splits)

lemma is_number_simps [simp]:
  "is_number (PInt i)" "is_number (PFloat x)" "is_number (PBool b)"
  "\<not> is_number PNone" "\<not> is_number (PStr s)" "\<not> is_number (PList xs)" "\<not> is_number (PDict kvs)"
  by (simp_all add: is_number_def)

lemma is_number_py_arith: "py_arith R opi opf x y = Inr v \<Longrightarrow> is_number v"
  by (cases x; cases y) (auto split: option.splits)

lemma py_arith_error: "py_arith R opi opf x y = Inl e \<Longrightarrow> e = OverflowError"
  by (cases x; cases y) (auto split: option.splits)

lemma is_number_py_binop: "py_binop R t x y = Inr v \<Longrightarrow> is_number v"
  by (auto simp: py_binop_def py_add_def py_sub_def py_mul_def split: if_splits
           dest: is_number_py_arith)

lemma py_binop_error: "py_binop R t x y = Inl e \<Longrightarrow> e = OverflowError"
  by (auto simp: py_binop_def py_add_def py_sub_def py_mul_def split: if_splits
           dest: py_arith_error)

lemma number_of_is_number: "number_of a = Some x \<Longrightarrow> is_number a"
  by (simp add: is_number_def)

lemma number_of_Some: "is_number a \<Longrightarrow> \<exists>x. number_of a = Some x"
  by (simp add: is_number_def)

lemma is_number_py_abs: "is_number (py_abs R x)"
  by (cases x) simp_all

lemma stack_two: "\<not> length st < 2 \<Longrightarrow> \<exists>st0 a b. st = st0 @ [a, b]"
proof -
  assume "\<not> length st < 2"
  then have "st \<noteq> []" "butlast st \<noteq> []" by (cases st; auto split: if_splits)+
  then have "st = butlast st @ [last st]" "butlast st = butlast (butlast st) @ [last (butlast st)]"
    by simp_all
  then have "st = butlast (butlast st) @ [last (butlast st), last st]"
    by (metis append.assoc append_Cons append_Nil)
  then show ?thesis by blast
qed

lemma stack_one: "st \<noteq> [] \<Longrightarrow> \<exists>st0 a. st = st0 @ [a]"
  by (metis append_butlast_last_id)

text \<open>The three operator branches on a stack that is deep enough.\<close>

lemma eval_token_arith:
  "t \<in> set [''+'', ''-'', ''*''] \<Longrightarrow>
   eval_token R cs t (st @ [a, b]) =
     (case (number_of a, number_of b) of
        (Some x, Some y) \<Rightarrow>
          (case py_binop R t x y of
             Inl e \<Rightarrow> Inl e
           | Inr v \<Rightarrow> Inr (st @ [v]))
      | _ \<Rightarrow> Inl (ConfigError ArithmeticOnlyNumbers))"
  by (simp add: eval_token_def butlast_append)

lemma eval_token_max_any:
  "eval_token R cs ''max'' (st @ [a, b]) =
     (case (number_of a, number_of b) of
        (Some x, Some y) \<Rightarrow> Inr (st @ [py_max R a b x y])
      | _ \<Rightarrow> Inl (ConfigError MaxOnlyNumbers))"
  by (simp add: eval_token_def butlast_append)

lemma eval_token_abs_any:
  "eval_token R cs ''abs'' (st @ [a]) =
     (case number_of a of
        Some x \<Rightarrow> Inr (st @ [py_abs R x])
      | None \<Rightarrow> Inl (ConfigError AbsOnlyNumbers))"
  by (simp add: eval_token_def)

lemma eval_token_short:
  "t \<in> set [''+'', ''-'', ''*''] \<Longrightarrow> length st < 2 \<Longrightarrow>
     eval_token R cs t st = Inl (ConfigError (NotEnoughOperands t))"
  "length st < 2 \<Longrightarrow> eval_token R cs ''max'' st = Inl (ConfigError NotEnoughOperandsMax)"
  "eval_token R cs ''abs'' [] = Inl (ConfigError NotEnoughOperandsAbs)"
  by (simp_all add: eval_token_def)

lemma eval_token_leaf:
  "t \<notin> set operators \<Longrightarrow>
   eval_token R cs t st =
     (case cs t of
        Some v \<Rightarrow> if is_list v then Inl (ConfigError (CannotUseArray t)) else Inr (st @ [v])
      | None \<Rightarrow>
          (case py_int t of
             Some n \<Rightarrow> Inr (st @ [PInt n])
           | None \<Rightarrow> Inl (ConfigError (UnknownToken t))))"
  by (simp add: eval_token_def operators_def)

lemma token_cases:
  obtains (arith) "t \<in> set [''+'', ''-'', ''*'']" | (max) "t = ''max''" | (abs) "t = ''abs''"
  | (leaf) "t \<notin> set operators"
  by (auto simp: operators_def)

lemma eval_token_literal:
  "cs t = None \<Longrightarrow> py_int t = Some n \<Longrightarrow> eval_token R cs t st = Inr (st @ [PInt n])"
  using py_int_operator[of t] by (auto simp: eval_token_def operators_def)

lemma eval_token_constant:
  "t \<notin> set operators \<Longrightarrow> cs t = Some v \<Longrightarrow>
   eval_token R cs t st =
     (if is_list v then Inl (ConfigError (CannotUseArray t)) else Inr (st @ [v]))"
  by (auto simp: eval_token_def operators_def)

lemma eval_token_unknown:
  "t \<notin> set operators \<Longrightarrow> cs t = None \<Longrightarrow> py_int t = None \<Longrightarrow>
   eval_token R cs t st = Inl (ConfigError (UnknownToken t))"
  by (auto simp: eval_token_def operators_def)

section \<open>Decimal numerals\<close>

lemma digit_char_digit: "d < 10 \<Longrightarrow> is_digit (digit_char d) \<and> of_char (digit_char d) - 48 = d"
proof -
  assume "d < 10"
  then have "d = 0 \<or> d = 1 \<or> d = 2 \<or> d = 3 \<or> d = 4 \<or> d = 5 \<or> d = 6 \<or> d = 7 \<or> d = 8 \<or> d = 9"
    by arith
  then show ?thesis
    by (elim disjE) (simp_all add: digit_char_def is_digit_def)
qed

lemma is_digit_not_underscore: "is_digit c \<Longrightarrow> c \<noteq> CHR ''_''"
  by (auto simp: is_digit_def Let_def)

lemma is_digit_not_space: "is_digit c \<Longrightarrow> \<not> int_space c"
  by (auto simp: is_digit_def int_space_def Let_def)

lemma str_nat_digits: "str_nat n \<noteq> [] \<and> list_all is_digit (str_nat n)"
proof (induction n rule: str_nat.induct)
  case (1 n)
  show ?case
  proof (cases "n < 10")
    case True
    then show ?thesis by (simp add: str_nat.simps[of n] digit_char_digit)
  next
    case False
    with 1 show ?thesis by (simp add: str_nat.simps[of n] digit_char_digit)
  qed
qed




lemma str_nat_long: "10 ^ k \<le> n \<Longrightarrow> k < length (str_nat n)"
proof (induction k arbitrary: n)
  case 0
  show ?case using str_nat_digits[of n] by (cases "str_nat n") auto
next
  case (Suc k)
  then have ge: "10 \<le> n"
    by (metis (no_types, opaque_lifting) dual_order.trans one_le_numeral one_le_power power_Suc
        mult.right_neutral mult_le_mono2)
  from Suc.prems have "10 ^ k \<le> n div 10"
    by (simp add: less_eq_div_iff_mult_less_eq mult.commute)
  from Suc.IH[OF this] ge show ?case by (simp add: str_nat.simps[of n])
qed

lemma no_double_underscore: "list_all is_digit ds \<Longrightarrow> \<not> double_underscore ds"
  by (induction ds rule: double_underscore.induct) (auto dest: is_digit_not_underscore)

text \<open>\<^verbatim>\<open>int\<close> on a run of digits, with or without \<^verbatim>\<open>-\<close>: its value up to the limit, and
  \<^verbatim>\<open>ValueError\<close> beyond.\<close>

lemma py_int_digits:
  assumes "ds \<noteq> []" and "list_all is_digit ds"
  shows "py_int ds =
      (if length ds \<le> max_str_digits then Some (int (digits_value 0 ds)) else None)"
    and "py_int (CHR ''-'' # ds) =
      (if length ds \<le> max_str_digits then Some (- int (digits_value 0 ds)) else None)"
proof -
  from assms obtain c cs where ds: "ds = c # cs" and c: "is_digit c" by (cases ds) auto
  have all: "\<forall>x \<in> set ds. digit_or_underscore x"
    using assms(2) by (auto simp: list_all_iff digit_or_underscore_def)
  then have tw: "takeWhile digit_or_underscore ds = ds" "dropWhile digit_or_underscore ds = []"
    by simp_all
  have fl: "filter is_digit ds = ds"
    using assms(2) by (simp add: list_all_iff)
  have hd: "hd ds \<noteq> CHR ''_''" using ds c by (auto dest: is_digit_not_underscore)
  have "last ds \<in> set ds" using assms(1) by simp
  then have "is_digit (last ds)" using assms(2) by (simp add: list_all_iff)
  then have last: "last ds \<noteq> CHR ''_''" by (rule is_digit_not_underscore)
  have nd: "\<not> double_underscore ds" using assms(2) by (rule no_double_underscore)
  have sp: "dropWhile int_space ds = ds" using ds c by (simp add: is_digit_not_space)
  have c': "hd ds \<noteq> CHR ''+''" "hd ds \<noteq> CHR ''-''" using c ds by (auto simp: is_digit_def Let_def)
  show "py_int ds =
      (if length ds \<le> max_str_digits then Some (int (digits_value 0 ds)) else None)"
    unfolding py_int_def sp Let_def using hd last nd assms(1) c' by (simp add: tw fl)
  have sp': "dropWhile int_space (CHR ''-'' # ds) = CHR ''-'' # ds"
    by (simp add: int_space_def)
  show "py_int (CHR ''-'' # ds) =
      (if length ds \<le> max_str_digits then Some (- int (digits_value 0 ds)) else None)"
    unfolding py_int_def sp' Let_def using hd last nd assms(1) by (simp add: tw fl)
qed


text \<open>The literal \<open>1\<close> followed by \<open>k\<close> zeros, and a run of \<open>k\<close> ones.\<close>

lemma digits_value_zeros: "digits_value acc (replicate k (CHR ''0'')) = acc * 10 ^ k"
  by (induction k arbitrary: acc) simp_all

lemma py_int_power_of_ten:
  "k < max_str_digits \<Longrightarrow> py_int (CHR ''1'' # replicate k (CHR ''0'')) = Some (int (10 ^ k))"
  using py_int_digits(1)[of "CHR ''1'' # replicate k (CHR ''0'')"]
  by (simp add: list_all_iff is_digit_def digits_value_zeros)

lemma py_int_too_long:
  "max_str_digits < k \<Longrightarrow> py_int (replicate k (CHR ''1'')) = None"
  using py_int_digits(1)[of "replicate k (CHR ''1'')"]
  by (simp add: list_all_iff is_digit_def)

section \<open>The evaluator on well-formed expressions\<close>

text \<open>
  Running the tokens of an expression pushes its value and touches nothing below it,
  whatever follows; an exception in the expression ends the run.
\<close>

lemma eval_tokens_binary:
  assumes a: "\<And>rest st. eval_tokens R cs (postfix a @ rest) st =
      (case tree_value R cs a of Inl x \<Rightarrow> Inl x | Inr v \<Rightarrow> eval_tokens R cs rest (st @ [v]))"
    and b: "\<And>rest st. eval_tokens R cs (postfix b @ rest) st =
      (case tree_value R cs b of Inl x \<Rightarrow> Inl x | Inr v \<Rightarrow> eval_tokens R cs rest (st @ [v]))"
    and step: "\<And>va vb. eval_token R cs t (st @ [va, vb]) =
      (case on_numbers err f (Inr va) (Inr vb) of Inl x \<Rightarrow> Inl x | Inr v \<Rightarrow> Inr (st @ [v]))"
  shows "eval_tokens R cs (postfix a @ postfix b @ t # rest) st =
      (case on_numbers err f (tree_value R cs a) (tree_value R cs b) of
         Inl x \<Rightarrow> Inl x
       | Inr v \<Rightarrow> eval_tokens R cs rest (st @ [v]))"
proof (cases "tree_value R cs a")
  case (Inl x)
  then show ?thesis by (simp add: a on_numbers_def)
next
  case va: (Inr va)
  show ?thesis
  proof (cases "tree_value R cs b")
    case (Inl x)
    with va show ?thesis by (simp add: a b on_numbers_def)
  next
    case (Inr vb)
    with va step[of va vb] show ?thesis
      by (simp add: a b on_numbers_def split: sum.splits)
  qed
qed

lemma eval_tokens_tree:
  "leaves_defined cs e \<Longrightarrow>
   eval_tokens R cs (postfix e @ rest) st =
     (case tree_value R cs e of Inl x \<Rightarrow> Inl x | Inr v \<Rightarrow> eval_tokens R cs rest (st @ [v]))"
proof (induction e arbitrary: rest st)
  case (ELit t)
  then show ?case by (auto simp: eval_token_literal)
next
  case (ERef c)
  then show ?case
    by (auto simp: eval_token_constant split: option.splits)
next
  case (EAdd a b)
  have "eval_tokens R cs (postfix a @ postfix b @ ''+'' # rest) st =
      (case on_numbers ArithmeticOnlyNumbers (\<lambda>a b. py_add R) (tree_value R cs a) (tree_value R cs b) of
         Inl x \<Rightarrow> Inl x
       | Inr v \<Rightarrow> eval_tokens R cs rest (st @ [v]))"
    using EAdd
    by (intro eval_tokens_binary)
       (auto simp: eval_token_arith on_numbers_def py_binop_def split: option.splits sum.splits)
  then show ?case by simp
next
  case (ESub a b)
  have "eval_tokens R cs (postfix a @ postfix b @ ''-'' # rest) st =
      (case on_numbers ArithmeticOnlyNumbers (\<lambda>a b. py_sub R) (tree_value R cs a) (tree_value R cs b) of
         Inl x \<Rightarrow> Inl x
       | Inr v \<Rightarrow> eval_tokens R cs rest (st @ [v]))"
    using ESub
    by (intro eval_tokens_binary)
       (auto simp: eval_token_arith on_numbers_def py_binop_def split: option.splits sum.splits)
  then show ?case by simp
next
  case (EMul a b)
  have "eval_tokens R cs (postfix a @ postfix b @ ''*'' # rest) st =
      (case on_numbers ArithmeticOnlyNumbers (\<lambda>a b. py_mul R) (tree_value R cs a) (tree_value R cs b) of
         Inl x \<Rightarrow> Inl x
       | Inr v \<Rightarrow> eval_tokens R cs rest (st @ [v]))"
    using EMul
    by (intro eval_tokens_binary)
       (auto simp: eval_token_arith on_numbers_def py_binop_def split: option.splits sum.splits)
  then show ?case by simp
next
  case (EMax a b)
  have "eval_tokens R cs (postfix a @ postfix b @ ''max'' # rest) st =
      (case on_numbers MaxOnlyNumbers (\<lambda>a b x y. Inr (py_max R a b x y)) (tree_value R cs a) (tree_value R cs b) of
         Inl x \<Rightarrow> Inl x
       | Inr v \<Rightarrow> eval_tokens R cs rest (st @ [v]))"
    using EMax
    by (intro eval_tokens_binary)
       (auto simp: eval_token_max_any on_numbers_def split: option.splits sum.splits)
  then show ?case by simp
next
  case (EAbs a)
  then show ?case
    by (auto simp: eval_token_abs_any split: sum.splits option.splits)
qed

lemma evaluate_postfix_tree:
  assumes "leaves_defined constants e"
  shows "evaluate_postfix_expression R (postfix e) constants = tree_value R constants e"
  using eval_tokens_tree[OF assms, of R "[]" "[]"]
  by (cases "tree_value R constants e") (simp_all add: evaluate_postfix_expression_def)

lemma well_formed_leaves_defined: "well_formed cs e \<Longrightarrow> leaves_defined cs e"
  by (induction e) (auto split: option.splits pyval.splits)

lemma tree_value_integers:
  "well_formed cs e \<Longrightarrow> tree_value R cs e = Inr (PInt (expected cs e))"
  by (induction e)
     (auto simp: on_numbers_def py_add_def py_sub_def py_mul_def py_max_def max_def
           split: option.splits pyval.splits)

text \<open>On numbers the value is a number, unless a conversion to float overflows.\<close>

lemma py_arith_numbers:
  "py_arith R opi opf x y = Inl OverflowError \<or> (\<exists>v. py_arith R opi opf x y = Inr v \<and> is_number v)"
  by (cases x; cases y) (auto split: option.splits)

lemma on_numbers_numbers:
  assumes "ra = Inl OverflowError \<or> (\<exists>v. ra = Inr v \<and> is_number v)"
    and "rb = Inl OverflowError \<or> (\<exists>v. rb = Inr v \<and> is_number v)"
    and "\<And>a b x y. is_number a \<Longrightarrow> is_number b \<Longrightarrow>
      f a b x y = Inl OverflowError \<or> (\<exists>v. f a b x y = Inr v \<and> is_number v)"
  shows "on_numbers err f ra rb = Inl OverflowError \<or>
    (\<exists>v. on_numbers err f ra rb = Inr v \<and> is_number v)"
proof -
  consider "ra = Inl OverflowError"
    | a where "ra = Inr a" "is_number a" "rb = Inl OverflowError"
    | a b where "ra = Inr a" "is_number a" "rb = Inr b" "is_number b"
    using assms(1,2) by blast
  then show ?thesis
  proof cases
    case 1
    then show ?thesis by (simp add: on_numbers_def)
  next
    case 2
    then show ?thesis by (simp add: on_numbers_def)
  next
    case 3
    then obtain x y where "number_of a = Some x" "number_of b = Some y"
      using number_of_Some by blast
    with 3 assms(3)[of a b x y] show ?thesis by (simp add: on_numbers_def)
  qed
qed

lemma tree_value_numbers:
  assumes "numbers_or_arrays cs"
  shows "leaves_defined cs e \<Longrightarrow>
    tree_value R cs e = Inl OverflowError \<or> (\<exists>v. tree_value R cs e = Inr v \<and> is_number v)"
proof (induction e)
  case (ELit t)
  show ?case by simp
next
  case (ERef c)
  then obtain v where v: "cs c = Some v" "\<not> is_list v" by (auto split: option.splits)
  with assms have "is_number v" unfolding numbers_or_arrays_def by blast
  with v show ?case by simp
next
  case (EAdd a b)
  then show ?case
    by (simp del: is_number_simps) (intro on_numbers_numbers; simp add: py_add_def py_arith_numbers)
next
  case (ESub a b)
  then show ?case
    by (simp del: is_number_simps) (intro on_numbers_numbers; simp add: py_sub_def py_arith_numbers)
next
  case (EMul a b)
  then show ?case
    by (simp del: is_number_simps) (intro on_numbers_numbers; simp add: py_mul_def py_arith_numbers)
next
  case (EMax a b)
  then show ?case
    by (simp del: is_number_simps) (intro on_numbers_numbers; simp add: py_max_def)
next
  case (EAbs a)
  then show ?case
    by (auto simp: is_number_py_abs dest!: number_of_Some split: sum.splits option.splits)
qed

lemma evaluate_float_overflow:
  assumes "k < max_str_digits" and "float_of_int R (int (10 ^ k)) = None"
    and "x \<notin> set operators" and "cs x = Some (PFloat f)"
    and "cs (CHR ''1'' # replicate k (CHR ''0'')) = None"
  shows "evaluate_postfix_expression R
      (x # (CHR ''1'' # replicate k (CHR ''0'')) # ''+'' # rest) cs = Inl OverflowError"
proof -
  have lit: "py_int (CHR ''1'' # replicate k (CHR ''0'')) = Some (int (10 ^ k))"
    using assms(1) by (rule py_int_power_of_ten)
  have "eval_tokens R cs (x # (CHR ''1'' # replicate k (CHR ''0'')) # ''+'' # rest) [] =
      Inl OverflowError"
    using assms(2)
      eval_token_constant[where R = R and cs = cs and t = x and st = "[]", OF assms(3,4)]
      eval_token_literal[where R = R and cs = cs and st = "[PFloat f]", OF assms(5) lit]
      eval_token_arith[of "''+''" R cs "[]" "PFloat f" "PInt (int (10 ^ k))"]
    by (simp add: py_binop_def py_add_def del: of_nat_power)
  then show ?thesis by (simp add: evaluate_postfix_expression_def)
qed

text \<open>\<open>10 ^ 400\<close> is too large for a float.\<close>

lemma power_of_ten_overflows: "float_of_int unit_runtime (int (10 ^ 400)) = None"
  by (simp add: unit_runtime_def)

lemma long_token_not_operator: "3 < length t \<Longrightarrow> t \<notin> set operators"
  by (auto simp: operators_def)

text \<open>
  C1 as stated fails on a literal that \<^verbatim>\<open>int\<close> refuses for its length, and on an integer
  operand that is too large for the float it meets: a run of 4301 digits is an unknown
  token, and \<open>x + 10 ^ 400\<close> with the float constant \<open>x\<close> ends with \<^verbatim>\<open>OverflowError\<close>.
\<close>

theorem evaluate_well_formed_counterexample:
  "list_all is_digit (replicate 4301 (CHR ''1'')) \<and>
   evaluate_postfix_expression unit_runtime [replicate 4301 (CHR ''1'')] Map.empty =
     Inl (ConfigError (UnknownToken (replicate 4301 (CHR ''1'')))) \<and>
   leaves_defined [''x'' \<mapsto> PFloat ()]
     (EAdd (ERef ''x'') (ELit (CHR ''1'' # replicate 400 (CHR ''0'')))) \<and>
   evaluate_postfix_expression unit_runtime
       [''x'', CHR ''1'' # replicate 400 (CHR ''0''), ''+''] [''x'' \<mapsto> PFloat ()] =
     Inl OverflowError"
proof (intro conjI)
  show "list_all is_digit (replicate 4301 (CHR ''1''))"
    by (simp add: list_all_iff is_digit_def)
next
  have "py_int (replicate 4301 (CHR ''1'')) = None"
    by (rule py_int_too_long) (simp add: max_str_digits_def)
  moreover have "replicate 4301 (CHR ''1'') \<notin> set operators"
    by (rule long_token_not_operator) simp
  ultimately have "eval_token unit_runtime Map.empty (replicate 4301 (CHR ''1'')) [] =
      Inl (ConfigError (UnknownToken (replicate 4301 (CHR ''1''))))"
    by (intro eval_token_unknown) simp_all
  then show "evaluate_postfix_expression unit_runtime [replicate 4301 (CHR ''1'')] Map.empty =
      Inl (ConfigError (UnknownToken (replicate 4301 (CHR ''1''))))"
    by (simp add: evaluate_postfix_expression_def)
next
  have "py_int (CHR ''1'' # replicate 400 (CHR ''0'')) \<noteq> None"
    using py_int_power_of_ten[of 400] by (simp only: max_str_digits_def) simp
  then show "leaves_defined [''x'' \<mapsto> PFloat ()]
      (EAdd (ERef ''x'') (ELit (CHR ''1'' # replicate 400 (CHR ''0''))))"
    by (simp add: operators_def)
next
  have "400 < max_str_digits" by (simp add: max_str_digits_def)
  then show "evaluate_postfix_expression unit_runtime
       [''x'', CHR ''1'' # replicate 400 (CHR ''0''), ''+''] [''x'' \<mapsto> PFloat ()] =
      Inl OverflowError"
    by (rule evaluate_float_overflow[OF _ power_of_ten_overflows]) (simp_all add: operators_def)
qed

text \<open>
  C1, amended. For every expression whose leaves are integer literals that \<^verbatim>\<open>int\<close>
  reads (at most 4300 digits) and constants not bound to arrays,
  \<^verbatim>\<open>evaluate_postfix_expression\<close> on its postfix token sequence gives the value of the tree,
  the operand below the top of the stack being the left one. When the constants it names
  are integers, it returns the one number that integer arithmetic gives for the
  expression. When they are numbers, it returns one number unless a conversion of an
  integer to float overflows.
\<close>

theorem evaluate_well_formed:
  assumes "leaves_defined constants e"
  shows
    "evaluate_postfix_expression R (postfix e) constants = tree_value R constants e \<and>
     (well_formed constants e \<longrightarrow>
        evaluate_postfix_expression R (postfix e) constants = Inr (PInt (expected constants e))) \<and>
     (numbers_or_arrays constants \<longrightarrow>
        evaluate_postfix_expression R (postfix e) constants = Inl OverflowError \<or>
        (\<exists>v. evaluate_postfix_expression R (postfix e) constants = Inr v \<and> is_number v))"
  using evaluate_postfix_tree[OF assms, of R] tree_value_integers[of constants e R]
    tree_value_numbers[OF _ assms, of R]
  by simp

theorem evaluate_well_formed_witness:
  "well_formed (Map.empty :: unit constants) (EAdd (ELit ''3'') (ELit ''4'')) \<and>
   evaluate_postfix_expression unit_runtime [''3'', ''4'', ''+''] Map.empty = Inr (PInt 7) \<and>
   well_formed (Map.empty :: unit constants) (ESub (ELit ''5'') (ELit ''3'')) \<and>
   evaluate_postfix_expression unit_runtime [''5'', ''3'', ''-''] Map.empty = Inr (PInt 2) \<and>
   well_formed (Map.empty :: unit constants) (EMax (ELit ''2'') (ELit ''3'')) \<and>
   evaluate_postfix_expression unit_runtime [''2'', ''3'', ''max''] Map.empty = Inr (PInt 3) \<and>
   well_formed (Map.empty :: unit constants) (EAbs (ELit ''-4'')) \<and>
   evaluate_postfix_expression unit_runtime [''-4'', ''abs''] Map.empty = Inr (PInt 4) \<and>
   well_formed [''x'' \<mapsto> PInt 10 :: unit pyval] (EMul (ERef ''x'') (ELit ''2'')) \<and>
   evaluate_postfix_expression unit_runtime [''x'', ''2'', ''*''] [''x'' \<mapsto> PInt 10] = Inr (PInt 20) \<and>
   leaves_defined [''y'' \<mapsto> PFloat ()] (EMul (ERef ''y'') (ELit ''2'')) \<and>
   numbers_or_arrays [''y'' \<mapsto> PFloat ()] \<and>
   evaluate_postfix_expression unit_runtime [''y'', ''2'', ''*''] [''y'' \<mapsto> PFloat ()] =
     Inr (PFloat ()) \<and>
   is_number (PFloat ())"
proof -
  have small: "float_of_int unit_runtime 2 = Some ()"
    by (simp add: unit_runtime_def)
  show ?thesis
    using evaluate_well_formed[of "Map.empty :: unit constants" "EAdd (ELit ''3'') (ELit ''4'')" unit_runtime]
        evaluate_well_formed[of "Map.empty :: unit constants" "ESub (ELit ''5'') (ELit ''3'')" unit_runtime]
        evaluate_well_formed[of "Map.empty :: unit constants" "EMax (ELit ''2'') (ELit ''3'')" unit_runtime]
        evaluate_well_formed[of "Map.empty :: unit constants" "EAbs (ELit ''-4'')" unit_runtime]
        evaluate_well_formed[of "[''x'' \<mapsto> PInt 10 :: unit pyval]" "EMul (ERef ''x'') (ELit ''2'')" unit_runtime]
        evaluate_well_formed[of "[''y'' \<mapsto> PFloat ()]" "EMul (ERef ''y'') (ELit ''2'')" unit_runtime]
    by (simp add: py_int_eval operators_def on_numbers_def py_add_def py_sub_def py_mul_def
          py_max_def numbers_or_arrays_def small)
qed

section \<open>The evaluator on malformed token sequences\<close>

lemma evaluate_append_token:
  "eval_tokens R cs pre [] = Inr st \<Longrightarrow> eval_token R cs t st = Inl e \<Longrightarrow>
   evaluate_postfix_expression R (pre @ t # post) cs = Inl e"
  by (simp add: evaluate_postfix_expression_def eval_tokens_append)

lemma eval_tokens_fails_at:
  "(\<And>st. \<exists>e. eval_token R cs t st = Inl e) \<Longrightarrow> t \<in> set tokens \<Longrightarrow>
   \<exists>e. eval_tokens R cs tokens st = Inl e"
proof (induction tokens arbitrary: st)
  case Nil
  then show ?case by simp
next
  case (Cons a tokens)
  show ?case
  proof (cases "eval_token R cs a st")
    case (Inl e)
    then show ?thesis by simp
  next
    case (Inr st')
    show ?thesis
    proof (cases "a = t")
      case True
      with Cons.prems(1)[of st] Inr show ?thesis by simp
    next
      case False
      with Cons.prems have "t \<in> set tokens" by simp
      from Cons.IH[OF Cons.prems(1) this, of st'] Inr show ?thesis by simp
    qed
  qed
qed

lemma evaluate_fails_at:
  "(\<And>st. \<exists>e. eval_token R cs t st = Inl e) \<Longrightarrow> t \<in> set tokens \<Longrightarrow>
   \<exists>e. evaluate_postfix_expression R tokens cs = Inl e"
  using eval_tokens_fails_at[of R cs t tokens "[]"]
  by (auto simp: evaluate_postfix_expression_def)

text \<open>
  Conversely, the tokens processed without an exception are the postfix forms of one
  expression for each value on the stack.
\<close>

lemma length_two_snoc: "length es = length st + 2 \<Longrightarrow> \<exists>es' ea eb. es = es' @ [ea, eb] \<and> length es' = length st"
proof -
  assume l: "length es = length st + 2"
  then have "\<not> length es < 2" by simp
  then obtain es' ea eb where "es = es' @ [ea, eb]" using stack_two by blast
  with l show ?thesis by auto
qed

lemma length_one_snoc: "length es = length st + 1 \<Longrightarrow> \<exists>es' ea. es = es' @ [ea] \<and> length es' = length st"
proof -
  assume l: "length es = length st + 1"
  then have "es \<noteq> []" by auto
  then obtain es' ea where "es = es' @ [ea]" using stack_one by blast
  with l show ?thesis by auto
qed

lemma eval_token_decompile:
  assumes step: "eval_token R cs t st0 = Inr st"
    and es0: "length es0 = length st0" "list_all (leaves_defined cs) es0"
  shows "\<exists>es. length es = length st \<and> list_all (leaves_defined cs) es \<and>
              concat (map postfix es) = concat (map postfix es0) @ [t]"
proof (cases t rule: token_cases)
  case arith
  with step have "\<not> length st0 < 2" by (auto simp: eval_token_short(1))
  then obtain s a b where s: "st0 = s @ [a, b]" using stack_two by blast
  from step obtain v where st: "st = s @ [v]"
    unfolding s eval_token_arith[OF arith] by (auto split: option.splits sum.splits)
  from es0(1) s obtain es' ea eb where e: "es0 = es' @ [ea, eb]" "length es' = length s"
    using length_two_snoc[of es0 s] by auto
  define e' where "e' = (if t = ''+'' then EAdd ea eb else if t = ''-'' then ESub ea eb else EMul ea eb)"
  have "postfix e' = postfix ea @ postfix eb @ [t]" using arith by (auto simp: e'_def)
  moreover have "leaves_defined cs e'" using es0(2) e by (simp add: e'_def)
  ultimately have "length (es' @ [e']) = length st \<and> list_all (leaves_defined cs) (es' @ [e']) \<and>
      concat (map postfix (es' @ [e'])) = concat (map postfix es0) @ [t]"
    using e st es0(2) by simp
  then show ?thesis by blast
next
  case max
  with step have "\<not> length st0 < 2" by (auto simp: eval_token_short(2))
  then obtain s a b where s: "st0 = s @ [a, b]" using stack_two by blast
  from step obtain v where st: "st = s @ [v]"
    unfolding s max eval_token_max_any by (auto split: option.splits)
  from es0(1) s obtain es' ea eb where e: "es0 = es' @ [ea, eb]" "length es' = length s"
    using length_two_snoc[of es0 s] by auto
  have "length (es' @ [EMax ea eb]) = length st \<and>
      list_all (leaves_defined cs) (es' @ [EMax ea eb]) \<and>
      concat (map postfix (es' @ [EMax ea eb])) = concat (map postfix es0) @ [t]"
    using e st es0(2) max by simp
  then show ?thesis by blast
next
  case abs
  with step have "st0 \<noteq> []" by (auto simp: eval_token_short(3))
  then obtain s a where s: "st0 = s @ [a]" using stack_one by blast
  from step obtain v where st: "st = s @ [v]"
    unfolding s abs eval_token_abs_any by (auto split: option.splits)
  from es0(1) s obtain es' ea where e: "es0 = es' @ [ea]" "length es' = length s"
    using length_one_snoc[of es0 s] by auto
  have "length (es' @ [EAbs ea]) = length st \<and>
      list_all (leaves_defined cs) (es' @ [EAbs ea]) \<and>
      concat (map postfix (es' @ [EAbs ea])) = concat (map postfix es0) @ [t]"
    using e st es0(2) abs by simp
  then show ?thesis by blast
next
  case leaf
  show ?thesis
  proof (cases "cs t")
    case None
    with leaf step have "py_int t \<noteq> None" "length st = length st0 + 1"
      by (auto simp: eval_token_leaf split: option.splits)
    with None es0 have "length (es0 @ [ELit t]) = length st \<and>
        list_all (leaves_defined cs) (es0 @ [ELit t]) \<and>
        concat (map postfix (es0 @ [ELit t])) = concat (map postfix es0) @ [t]"
      by simp
    then show ?thesis by blast
  next
    case (Some v)
    with leaf step have "\<not> is_list v" "length st = length st0 + 1"
      by (auto simp: eval_token_leaf split: if_splits)
    with Some leaf es0 have "length (es0 @ [ERef t]) = length st \<and>
        list_all (leaves_defined cs) (es0 @ [ERef t]) \<and>
        concat (map postfix (es0 @ [ERef t])) = concat (map postfix es0) @ [t]"
      by simp
    then show ?thesis by blast
  qed
qed

lemma eval_tokens_decompile:
  "eval_tokens R cs ts [] = Inr st \<Longrightarrow>
   \<exists>es. length es = length st \<and> list_all (leaves_defined cs) es \<and> concat (map postfix es) = ts"
proof (induction ts arbitrary: st rule: rev_induct)
  case Nil
  then show ?case by simp
next
  case (snoc t ts)
  from snoc.prems obtain st0 where run: "eval_tokens R cs ts [] = Inr st0"
    and step: "eval_token R cs t st0 = Inr st"
    by (auto simp: eval_tokens_append split: sum.splits)
  from snoc.IH[OF run] obtain es0 where "length es0 = length st0"
    "list_all (leaves_defined cs) es0" "concat (map postfix es0) = ts" by blast
  with eval_token_decompile[OF step, of es0] show ?case by auto
qed

lemma evaluate_returns_postfix:
  assumes "evaluate_postfix_expression R tokens cs = Inr v"
  shows "\<exists>e. leaves_defined cs e \<and> tokens = postfix e"
proof -
  from assms obtain st where run: "eval_tokens R cs tokens [] = Inr st" and one: "length st = 1"
    by (auto simp: evaluate_postfix_expression_def split: sum.splits if_splits)
  from eval_tokens_decompile[OF run] one obtain es where
    es: "length es = 1" "list_all (leaves_defined cs) es" "concat (map postfix es) = tokens"
    by auto
  then obtain e where "es = [e]" by (cases es) auto
  with es show ?thesis by auto
qed

text \<open>
  Two values left on the stack, the first a product of more than 4300 digits: the text of
  the stack cannot be built, and the \<^verbatim>\<open>ConfigError\<close> of the last line is not reached.
\<close>

lemma evaluate_leftover_too_long:
  assumes "k < max_str_digits" and "max_str_digits \<le> 2 * k"
    and "cs (CHR ''1'' # replicate k (CHR ''0'')) = None" and "cs ''1'' = None"
  shows "\<exists>stack. eval_tokens R cs
      [CHR ''1'' # replicate k (CHR ''0''), CHR ''1'' # replicate k (CHR ''0''), ''*'', ''1''] [] =
      Inr stack \<and> length stack = 2"
    and "evaluate_postfix_expression R
      [CHR ''1'' # replicate k (CHR ''0''), CHR ''1'' # replicate k (CHR ''0''), ''*'', ''1''] cs =
      Inl ValueError"
proof -
  have lit: "py_int (CHR ''1'' # replicate k (CHR ''0'')) = Some (int (10 ^ k))"
    using assms(1) by (rule py_int_power_of_ten)
  have one: "py_int ''1'' = Some 1" by (simp add: py_int_eval)
  have run: "eval_tokens R cs
      [CHR ''1'' # replicate k (CHR ''0''), CHR ''1'' # replicate k (CHR ''0''), ''*'', ''1''] [] =
      Inr [PInt (int (10 ^ k) * int (10 ^ k)), PInt 1]"
    using eval_token_literal[where R = R and cs = cs and st = "[]", OF assms(3) lit]
      eval_token_literal[where R = R and cs = cs and st = "[PInt (int (10 ^ k))]", OF assms(3) lit]
      eval_token_literal[where R = R and cs = cs
        and st = "[PInt (int (10 ^ k) * int (10 ^ k))]", OF assms(4) one]
      eval_token_arith[of "''*''" R cs "[]" "PInt (int (10 ^ k))" "PInt (int (10 ^ k))"]
    by (simp add: py_binop_def py_mul_def del: of_nat_power)
  then show "\<exists>stack. eval_tokens R cs
      [CHR ''1'' # replicate k (CHR ''0''), CHR ''1'' # replicate k (CHR ''0''), ''*'', ''1''] [] =
      Inr stack \<and> length stack = 2"
    by simp
  have "int (10 ^ k) * int (10 ^ k) = int (10 ^ (2 * k))"
    by (simp only: of_nat_mult [symmetric] power_add [symmetric] mult_2)
  then have "nat \<bar>int (10 ^ k) * int (10 ^ k)\<bar> = 10 ^ (2 * k)"
    by (simp only: abs_of_nat nat_int)
  moreover have "2 * k < length (str_nat (10 ^ (2 * k)))"
    by (rule str_nat_long) (rule order_refl)
  ultimately have "max_str_digits < length (str_nat (nat \<bar>int (10 ^ k) * int (10 ^ k)\<bar>))"
    using assms(2) by (simp only:)
  then have "py_reprs R [PInt (int (10 ^ k) * int (10 ^ k)), PInt 1] = Inl ValueError"
    by simp
  with run show "evaluate_postfix_expression R
      [CHR ''1'' # replicate k (CHR ''0''), CHR ''1'' # replicate k (CHR ''0''), ''*'', ''1''] cs =
      Inl ValueError"
    by (simp add: evaluate_postfix_expression_def)
qed

text \<open>
  C2 as stated fails where another exception comes first: an unknown token after an
  \<^verbatim>\<open>OverflowError\<close> is never reached, and a stack left with two values, one of them too
  long to print, ends with \<^verbatim>\<open>ValueError\<close>.
\<close>

theorem evaluate_malformed_counterexample:
  "''foo'' \<notin> set operators \<and> [''x'' \<mapsto> PFloat ()] ''foo'' = None \<and> py_int ''foo'' = None \<and>
   evaluate_postfix_expression unit_runtime
       [''x'', CHR ''1'' # replicate 400 (CHR ''0''), ''+'', ''foo''] [''x'' \<mapsto> PFloat ()] =
     Inl OverflowError \<and>
   (\<exists>stack. eval_tokens unit_runtime Map.empty
       [CHR ''1'' # replicate 4299 (CHR ''0''), CHR ''1'' # replicate 4299 (CHR ''0''), ''*'', ''1'']
       [] = Inr stack \<and> length stack = 2) \<and>
   evaluate_postfix_expression unit_runtime
       [CHR ''1'' # replicate 4299 (CHR ''0''), CHR ''1'' # replicate 4299 (CHR ''0''), ''*'', ''1'']
       Map.empty =
     Inl ValueError"
proof (intro conjI)
  show "''foo'' \<notin> set operators" by (simp add: operators_def)
next
  show "[''x'' \<mapsto> PFloat ()] ''foo'' = None" by simp
next
  show "py_int ''foo'' = None" by (simp add: py_int_eval)
next
  have "400 < max_str_digits" by (simp add: max_str_digits_def)
  then show "evaluate_postfix_expression unit_runtime
       [''x'', CHR ''1'' # replicate 400 (CHR ''0''), ''+'', ''foo''] [''x'' \<mapsto> PFloat ()] =
      Inl OverflowError"
    by (rule evaluate_float_overflow[OF _ power_of_ten_overflows]) (simp_all add: operators_def)
next
  show "\<exists>stack. eval_tokens unit_runtime Map.empty
       [CHR ''1'' # replicate 4299 (CHR ''0''), CHR ''1'' # replicate 4299 (CHR ''0''), ''*'', ''1'']
       [] = Inr stack \<and> length stack = 2"
    by (rule evaluate_leftover_too_long(1)) (simp_all add: max_str_digits_def)
next
  show "evaluate_postfix_expression unit_runtime
       [CHR ''1'' # replicate 4299 (CHR ''0''), CHR ''1'' # replicate 4299 (CHR ''0''), ''*'', ''1'']
       Map.empty =
     Inl ValueError"
    by (rule evaluate_leftover_too_long(2)) (simp_all add: max_str_digits_def)
qed

text \<open>
  C2, amended. Let the tokens \<open>before\<close> be processed without an exception and leave
  \<open>stack\<close>. A following \<^verbatim>\<open>+\<close>, \<^verbatim>\<open>-\<close>, \<^verbatim>\<open>*\<close> or \<^verbatim>\<open>max\<close> with fewer than two values on the
  stack, a following \<^verbatim>\<open>abs\<close> with none, and a following token that is no operator, no
  constant and not read by \<^verbatim>\<open>int\<close> each make \<^verbatim>\<open>evaluate_postfix_expression\<close> raise
  \<^verbatim>\<open>ConfigError\<close>, whatever comes after; a token sequence that holds such an unknown token
  anywhere never returns. When \<open>before\<close> is the whole sequence and the stack does not
  hold exactly one value, the evaluator never returns, and it raises \<^verbatim>\<open>ConfigError\<close>
  whenever the text of the stack can be built, as it can when the stack holds numbers
  whose integers have at most 4300 digits. And the evaluator returns a value only on the
  postfix form of an expression whose leaves are integer literals and constants.
\<close>

theorem evaluate_malformed:
  assumes "eval_tokens R constants before [] = Inr stack"
  shows
    "(t \<in> set [''+'', ''-'', ''*''] \<and> length stack < 2 \<longrightarrow>
        evaluate_postfix_expression R (before @ t # after) constants =
          Inl (ConfigError (NotEnoughOperands t))) \<and>
     (length stack < 2 \<longrightarrow>
        evaluate_postfix_expression R (before @ ''max'' # after) constants =
          Inl (ConfigError NotEnoughOperandsMax)) \<and>
     (stack = [] \<longrightarrow>
        evaluate_postfix_expression R (before @ ''abs'' # after) constants =
          Inl (ConfigError NotEnoughOperandsAbs)) \<and>
     (t \<notin> set operators \<and> constants t = None \<and> py_int t = None \<longrightarrow>
        evaluate_postfix_expression R (before @ t # after) constants =
          Inl (ConfigError (UnknownToken t)) \<and>
        (t \<in> set tokens \<longrightarrow> (\<exists>e. evaluate_postfix_expression R tokens constants = Inl e))) \<and>
     (length stack \<noteq> 1 \<longrightarrow>
        (\<exists>e. evaluate_postfix_expression R before constants = Inl e) \<and>
        ((\<exists>ss. py_reprs R stack = Inr ss) \<longrightarrow>
           evaluate_postfix_expression R before constants =
             Inl (ConfigError (InvalidStack stack))) \<and>
        (list_all short_number stack \<longrightarrow>
           evaluate_postfix_expression R before constants =
             Inl (ConfigError (InvalidStack stack)))) \<and>
     (evaluate_postfix_expression R tokens constants = Inr v \<longrightarrow>
        (\<exists>e. leaves_defined constants e \<and> tokens = postfix e))"
proof -
  have c1: "t \<in> set [''+'', ''-'', ''*''] \<and> length stack < 2 \<longrightarrow>
      evaluate_postfix_expression R (before @ t # after) constants =
        Inl (ConfigError (NotEnoughOperands t))"
  proof
    assume "t \<in> set [''+'', ''-'', ''*''] \<and> length stack < 2"
    then have "eval_token R constants t stack = Inl (ConfigError (NotEnoughOperands t))"
      by (simp add: eval_token_short(1))
    then show "evaluate_postfix_expression R (before @ t # after) constants =
        Inl (ConfigError (NotEnoughOperands t))"
      by (rule evaluate_append_token[OF assms])
  qed
  have c2: "length stack < 2 \<longrightarrow>
      evaluate_postfix_expression R (before @ ''max'' # after) constants =
        Inl (ConfigError NotEnoughOperandsMax)"
  proof
    assume "length stack < 2"
    then have "eval_token R constants ''max'' stack = Inl (ConfigError NotEnoughOperandsMax)"
      by (rule eval_token_short(2))
    then show "evaluate_postfix_expression R (before @ ''max'' # after) constants =
        Inl (ConfigError NotEnoughOperandsMax)"
      by (rule evaluate_append_token[OF assms])
  qed
  have c3: "stack = [] \<longrightarrow>
      evaluate_postfix_expression R (before @ ''abs'' # after) constants =
        Inl (ConfigError NotEnoughOperandsAbs)"
  proof
    assume "stack = []"
    then have "eval_token R constants ''abs'' stack = Inl (ConfigError NotEnoughOperandsAbs)"
      by (simp add: eval_token_short(3))
    then show "evaluate_postfix_expression R (before @ ''abs'' # after) constants =
        Inl (ConfigError NotEnoughOperandsAbs)"
      by (rule evaluate_append_token[OF assms])
  qed
  have c4: "t \<notin> set operators \<and> constants t = None \<and> py_int t = None \<longrightarrow>
      evaluate_postfix_expression R (before @ t # after) constants =
        Inl (ConfigError (UnknownToken t)) \<and>
      (t \<in> set tokens \<longrightarrow> (\<exists>e. evaluate_postfix_expression R tokens constants = Inl e))"
  proof (intro impI conjI)
    assume u: "t \<notin> set operators \<and> constants t = None \<and> py_int t = None"
    then show "evaluate_postfix_expression R (before @ t # after) constants =
        Inl (ConfigError (UnknownToken t))"
      by (intro evaluate_append_token[OF assms] eval_token_unknown) auto
    assume "t \<in> set tokens"
    with u show "\<exists>e. evaluate_postfix_expression R tokens constants = Inl e"
      by (intro evaluate_fails_at[of R constants t]) (auto simp: eval_token_unknown)
  qed
  have c5: "length stack \<noteq> 1 \<longrightarrow>
      (\<exists>e. evaluate_postfix_expression R before constants = Inl e) \<and>
      ((\<exists>ss. py_reprs R stack = Inr ss) \<longrightarrow>
         evaluate_postfix_expression R before constants =
           Inl (ConfigError (InvalidStack stack))) \<and>
      (list_all short_number stack \<longrightarrow>
         evaluate_postfix_expression R before constants =
           Inl (ConfigError (InvalidStack stack)))"
  proof (intro impI conjI)
    assume l: "length stack \<noteq> 1"
    with assms show "\<exists>e. evaluate_postfix_expression R before constants = Inl e"
      by (cases "py_reprs R stack") (simp_all add: evaluate_postfix_expression_def)
    {
      assume "\<exists>ss. py_reprs R stack = Inr ss"
      with assms l show "evaluate_postfix_expression R before constants =
          Inl (ConfigError (InvalidStack stack))"
        by (auto simp: evaluate_postfix_expression_def)
    }
    {
      assume "list_all short_number stack"
      then have "\<exists>ss. py_reprs R stack = Inr ss" by (rule py_reprs_short)
      with assms l show "evaluate_postfix_expression R before constants =
          Inl (ConfigError (InvalidStack stack))"
        by (auto simp: evaluate_postfix_expression_def)
    }
  qed
  have c6: "evaluate_postfix_expression R tokens constants = Inr v \<longrightarrow>
      (\<exists>e. leaves_defined constants e \<and> tokens = postfix e)"
    by (intro impI) (rule evaluate_returns_postfix)
  from c1 c2 c3 c4 c5 c6 show ?thesis by (intro conjI)
qed

text \<open>Some runs of the loop, for the closed statements.\<close>

lemma run_1: "eval_tokens unit_runtime Map.empty [''1''] [] = Inr [PInt 1]"
  by (simp add: eval_token_def py_int_eval)

lemma run_1_2: "eval_tokens unit_runtime Map.empty [''1'', ''2''] [] = Inr [PInt 1, PInt 2]"
  by (simp add: eval_token_def py_int_eval)

lemma run_1_2_plus_3:
  "eval_tokens unit_runtime Map.empty [''1'', ''2'', ''+'', ''3''] [] = Inr [PInt 3, PInt 3]"
  by (simp add: eval_token_def py_int_eval py_binop_def py_add_def)

lemma run_nil: "eval_tokens unit_runtime Map.empty [] [] = Inr []"
  by simp

theorem evaluate_malformed_witness:
  "eval_tokens unit_runtime Map.empty [''1''] [] = Inr [PInt 1] \<and>
   evaluate_postfix_expression unit_runtime [''1'', ''+''] Map.empty =
     Inl (ConfigError (NotEnoughOperands ''+'')) \<and>
   evaluate_postfix_expression unit_runtime [''1'', ''max'', ''2''] Map.empty =
     Inl (ConfigError NotEnoughOperandsMax) \<and>
   eval_tokens unit_runtime Map.empty [] [] = Inr [] \<and>
   evaluate_postfix_expression unit_runtime [''abs''] Map.empty =
     Inl (ConfigError NotEnoughOperandsAbs) \<and>
   ''foo'' \<notin> set operators \<and> py_int ''foo'' = None \<and>
   evaluate_postfix_expression unit_runtime [''foo''] Map.empty =
     Inl (ConfigError (UnknownToken ''foo'')) \<and>
   ''1.5'' \<notin> set operators \<and> py_int ''1.5'' = None \<and>
   evaluate_postfix_expression unit_runtime [''1.5''] Map.empty =
     Inl (ConfigError (UnknownToken ''1.5'')) \<and>
   (\<exists>e. evaluate_postfix_expression unit_runtime [''1.5'', ''2'', ''+''] Map.empty = Inl e) \<and>
   eval_tokens unit_runtime Map.empty [''1'', ''2''] [] = Inr [PInt 1, PInt 2] \<and>
   list_all short_number [PInt 1, PInt 2 :: unit pyval] \<and>
   evaluate_postfix_expression unit_runtime [''1'', ''2''] Map.empty =
     Inl (ConfigError (InvalidStack [PInt 1, PInt 2])) \<and>
   eval_tokens unit_runtime Map.empty [''1'', ''2'', ''+'', ''3''] [] = Inr [PInt 3, PInt 3] \<and>
   list_all short_number [PInt 3, PInt 3 :: unit pyval] \<and>
   evaluate_postfix_expression unit_runtime [''1'', ''2'', ''+'', ''3''] Map.empty =
     Inl (ConfigError (InvalidStack [PInt 3, PInt 3])) \<and>
   evaluate_postfix_expression unit_runtime [] Map.empty =
     Inl (ConfigError (InvalidStack [])) \<and>
   evaluate_postfix_expression unit_runtime [''1'', ''2'', ''+''] Map.empty = Inr (PInt 3) \<and>
   (\<exists>e. leaves_defined (Map.empty :: unit constants) e \<and> [''1'', ''2'', ''+''] = postfix e)"
proof -
  have ok: "evaluate_postfix_expression unit_runtime [''1'', ''2'', ''+''] Map.empty = Inr (PInt 3)"
    by (simp add: evaluate_postfix_expression_def eval_token_def py_int_eval py_binop_def
          py_add_def)
  have short: "list_all short_number [PInt 1, PInt 2 :: unit pyval]"
    "list_all short_number [PInt 3, PInt 3 :: unit pyval]"
    "list_all short_number ([] :: unit pyval list)"
    by (simp_all add: short_number_def str_nat.simps max_str_digits_def)
  have foo: "''foo'' \<notin> set operators" "py_int ''foo'' = None"
    and dot: "''1.5'' \<notin> set operators" "py_int ''1.5'' = None"
    by (simp_all add: operators_def py_int_eval)
  have w1: "evaluate_postfix_expression unit_runtime [''1'', ''+''] Map.empty =
      Inl (ConfigError (NotEnoughOperands ''+''))"
    using evaluate_malformed[OF run_1, where t = "''+''" and after = "[]", THEN conjunct1]
    by simp
  have w2: "evaluate_postfix_expression unit_runtime [''1'', ''max'', ''2''] Map.empty =
      Inl (ConfigError NotEnoughOperandsMax)"
    using evaluate_malformed[OF run_1, where after = "[''2'']", THEN conjunct2, THEN conjunct1]
    by simp
  have w3: "evaluate_postfix_expression unit_runtime [''abs''] Map.empty =
      Inl (ConfigError NotEnoughOperandsAbs)"
    using evaluate_malformed[OF run_nil, where after = "[]",
        THEN conjunct2, THEN conjunct2, THEN conjunct1]
    by simp
  have w4: "evaluate_postfix_expression unit_runtime [''foo''] Map.empty =
      Inl (ConfigError (UnknownToken ''foo''))"
    using foo evaluate_malformed[OF run_nil, where t = "''foo''" and after = "[]",
        THEN conjunct2, THEN conjunct2, THEN conjunct2, THEN conjunct1]
    by simp
  have w5: "evaluate_postfix_expression unit_runtime [''1.5''] Map.empty =
      Inl (ConfigError (UnknownToken ''1.5''))"
    "\<exists>e. evaluate_postfix_expression unit_runtime [''1.5'', ''2'', ''+''] Map.empty = Inl e"
    using dot evaluate_malformed[OF run_nil, where t = "''1.5''" and after = "[]"
        and tokens = "[''1.5'', ''2'', ''+'']",
        THEN conjunct2, THEN conjunct2, THEN conjunct2, THEN conjunct1]
    by simp_all
  have w6: "evaluate_postfix_expression unit_runtime [''1'', ''2''] Map.empty =
      Inl (ConfigError (InvalidStack [PInt 1, PInt 2]))"
    using short(1) evaluate_malformed[OF run_1_2,
        THEN conjunct2, THEN conjunct2, THEN conjunct2, THEN conjunct2, THEN conjunct1]
    by simp
  have w7: "evaluate_postfix_expression unit_runtime [''1'', ''2'', ''+'', ''3''] Map.empty =
      Inl (ConfigError (InvalidStack [PInt 3, PInt 3]))"
    using short(2) evaluate_malformed[OF run_1_2_plus_3,
        THEN conjunct2, THEN conjunct2, THEN conjunct2, THEN conjunct2, THEN conjunct1]
    by simp
  have w8: "evaluate_postfix_expression unit_runtime [] Map.empty =
      Inl (ConfigError (InvalidStack []))"
    using short(3) evaluate_malformed[OF run_nil,
        THEN conjunct2, THEN conjunct2, THEN conjunct2, THEN conjunct2, THEN conjunct1]
    by simp
  have w9: "\<exists>e. leaves_defined (Map.empty :: unit constants) e \<and> [''1'', ''2'', ''+''] = postfix e"
    using ok evaluate_malformed[OF run_nil, where tokens = "[''1'', ''2'', ''+'']" and v = "PInt 3",
        THEN conjunct2, THEN conjunct2, THEN conjunct2, THEN conjunct2, THEN conjunct2]
    by simp
  show ?thesis
    by (intro conjI run_1 run_1_2 run_1_2_plus_3 run_nil short foo dot ok w1 w2 w3 w4 w5 w6 w7 w8 w9)
qed

section \<open>Constants bound to arrays\<close>

text \<open>
  C3 as stated fails: a token that is the name of a constant bound to an array need not
  make the evaluation fail. The name pattern admits a constant named \<^verbatim>\<open>max\<close>, the
  validation accepts it with an array, and the token \<^verbatim>\<open>max\<close> is still the operator.
\<close>

theorem array_constant_named_max_counterexample:
  "build_constants [(''max'', PList [PInt 1 :: unit pyval])] Map.empty =
     Inr [''max'' \<mapsto> PList [PInt 1]] \<and>
   [''max'' \<mapsto> PList [PInt 1 :: unit pyval]] ''max'' = Some (PList [PInt 1]) \<and>
   ''max'' \<in> set [''1'', ''2'', ''max''] \<and>
   evaluate_postfix_expression unit_runtime [''1'', ''2'', ''max''] [''max'' \<mapsto> PList [PInt 1]] =
     Inr (PInt 2) \<and>
   process_value unit_runtime (PStr ''@(1 2 max)'') [''max'' \<mapsto> PList [PInt 1]] = Inr ''2''"
  by (simp add: is_lower_def name_char_def is_digit_def is_number_def
        evaluate_postfix_expression_def eval_token_def py_int_eval py_max_def
        startswith_def endswith_def slice_2_m1_def strip_def split_def py_isspace_def str_eval)

text \<open>
  C3, amended. For every token that is not one of the five operators and names a
  constant bound to an array: when the tokens before it are processed without an
  exception, \<^verbatim>\<open>evaluate_postfix_expression\<close> raises \<^verbatim>\<open>ConfigError\<close> (cannot use array) at it,
  whatever tokens follow; and a token sequence that holds it anywhere never returns.
\<close>

theorem evaluate_array_constant:
  assumes "t \<notin> set operators" and "constants t = Some (PList arr)"
  shows
    "(eval_tokens R constants before [] = Inr stack \<longrightarrow>
        evaluate_postfix_expression R (before @ t # after) constants =
          Inl (ConfigError (CannotUseArray t))) \<and>
     (t \<in> set tokens \<longrightarrow> (\<exists>e. evaluate_postfix_expression R tokens constants = Inl e))"
proof (intro conjI impI)
  have step: "eval_token R constants t st = Inl (ConfigError (CannotUseArray t))" for st
    using assms by (simp add: eval_token_constant)
  {
    assume "eval_tokens R constants before [] = Inr stack"
    then show "evaluate_postfix_expression R (before @ t # after) constants =
        Inl (ConfigError (CannotUseArray t))"
      using step by (rule evaluate_append_token)
  }
  {
    assume "t \<in> set tokens"
    then show "\<exists>e. evaluate_postfix_expression R tokens constants = Inl e"
      using step by (intro evaluate_fails_at[of R constants t]) auto
  }
qed

theorem evaluate_array_constant_witness:
  "''arr'' \<notin> set operators \<and>
   [''arr'' \<mapsto> PList [PInt 1, PInt 2, PInt 3 :: unit pyval]] ''arr'' = Some (PList [PInt 1, PInt 2, PInt 3]) \<and>
   eval_tokens unit_runtime [''arr'' \<mapsto> PList [PInt 1, PInt 2, PInt 3]] [''1''] [] = Inr [PInt 1] \<and>
   evaluate_postfix_expression unit_runtime [''1'', ''arr'', ''+'']
       [''arr'' \<mapsto> PList [PInt 1, PInt 2, PInt 3]] =
     Inl (ConfigError (CannotUseArray ''arr'')) \<and>
   ''arr'' \<in> set [''arr'', ''0'', ''+''] \<and>
   (\<exists>e. evaluate_postfix_expression unit_runtime [''arr'', ''0'', ''+'']
       [''arr'' \<mapsto> PList [PInt 1, PInt 2, PInt 3]] = Inl e)"
  using evaluate_array_constant[of "''arr''" "[''arr'' \<mapsto> PList [PInt 1, PInt 2, PInt 3 :: unit pyval]]"
          "[PInt 1, PInt 2, PInt 3]" unit_runtime "[''1'']" "[PInt 1]" "[''+'']" "[''arr'', ''0'', ''+'']"]
  by (simp add: operators_def eval_token_def py_int_eval)

section \<open>Token classification\<close>






section \<open>Only numbers on the stack\<close>

lemma eval_token_numbers:
  assumes cs: "numbers_or_arrays cs"
    and st: "list_all is_number st"
    and ok: "eval_token R cs t st = Inr st'"
  shows "list_all is_number st'"
proof (cases t rule: token_cases)
  case arith
  with ok have "\<not> length st < 2" by (auto simp: eval_token_short(1))
  then obtain st0 a b where s: "st = st0 @ [a, b]" using stack_two by blast
  from ok arith obtain v where "st' = st0 @ [v]" "is_number v"
    unfolding s eval_token_arith[OF arith]
    by (auto split: option.splits sum.splits dest: is_number_py_binop)
  with st s show ?thesis by simp
next
  case max
  with ok have "\<not> length st < 2" by (auto simp: eval_token_short(2))
  then obtain st0 a b where s: "st = st0 @ [a, b]" using stack_two by blast
  from ok obtain x y where "st' = st0 @ [py_max R a b x y]"
    unfolding s max eval_token_max_any by (auto split: option.splits)
  with st s show ?thesis by (simp add: py_max_def)
next
  case abs
  with ok have "st \<noteq> []" by (auto simp: eval_token_short(3))
  then obtain st0 a where s: "st = st0 @ [a]" using stack_one by blast
  from ok obtain x where "st' = st0 @ [py_abs R x]"
    unfolding s abs eval_token_abs_any by (auto split: option.splits)
  with st s show ?thesis by (simp add: is_number_py_abs)
next
  case leaf
  show ?thesis
  proof (cases "cs t")
    case None
    with leaf ok st show ?thesis
      by (auto simp: eval_token_leaf split: option.splits)
  next
    case (Some v)
    with leaf ok have "\<not> is_list v" "st' = st @ [v]"
      by (auto simp: eval_token_leaf split: if_splits)
    moreover from cs Some have "is_number v \<or> is_list v"
      unfolding numbers_or_arrays_def by blast
    ultimately show ?thesis using st by simp
  qed
qed

lemma eval_token_no_type_error:
  assumes st: "list_all is_number st"
  shows "eval_token R cs t st \<noteq> Inl (ConfigError ArithmeticOnlyNumbers) \<and>
         eval_token R cs t st \<noteq> Inl (ConfigError MaxOnlyNumbers) \<and>
         eval_token R cs t st \<noteq> Inl (ConfigError AbsOnlyNumbers)"
proof (cases t rule: token_cases)
  case arith
  show ?thesis
  proof (cases "length st < 2")
    case True
    then show ?thesis by (simp add: eval_token_short(1)[OF arith])
  next
    case False
    then obtain st0 a b where s: "st = st0 @ [a, b]" using stack_two by blast
    with st obtain x y where "number_of a = Some x" "number_of b = Some y"
      using number_of_Some[of a] number_of_Some[of b] by auto
    then show ?thesis
      unfolding s eval_token_arith[OF arith]
      by (auto split: sum.splits dest: py_binop_error)
  qed
next
  case max
  show ?thesis
  proof (cases "length st < 2")
    case True
    then show ?thesis by (simp add: max eval_token_short(2))
  next
    case False
    then obtain st0 a b where s: "st = st0 @ [a, b]" using stack_two by blast
    with st obtain x y where "number_of a = Some x" "number_of b = Some y"
      using number_of_Some[of a] number_of_Some[of b] by auto
    then show ?thesis
      unfolding s max eval_token_max_any by simp
  qed
next
  case abs
  show ?thesis
  proof (cases "st = []")
    case True
    then show ?thesis by (simp add: abs eval_token_short(3))
  next
    case False
    then obtain st0 a where s: "st = st0 @ [a]" using stack_one by blast
    with st obtain x where "number_of a = Some x"
      using number_of_Some[of a] by auto
    then show ?thesis
      unfolding s abs eval_token_abs_any by simp
  qed
next
  case leaf
  then show ?thesis
    by (simp add: eval_token_leaf split: option.splits)
qed


lemma eval_tokens_numbers:
  assumes cs: "numbers_or_arrays cs"
  shows "list_all is_number st \<Longrightarrow>
    (\<forall>st'. eval_tokens R cs ts st = Inr st' \<longrightarrow> list_all is_number st') \<and>
    eval_tokens R cs ts st \<noteq> Inl (ConfigError ArithmeticOnlyNumbers) \<and>
    eval_tokens R cs ts st \<noteq> Inl (ConfigError MaxOnlyNumbers) \<and>
    eval_tokens R cs ts st \<noteq> Inl (ConfigError AbsOnlyNumbers)"
proof (induction ts arbitrary: st)
  case Nil
  then show ?case by simp
next
  case (Cons t ts)
  show ?case
  proof (cases "eval_token R cs t st")
    case (Inl e)
    with eval_token_no_type_error[OF Cons.prems, of R cs t] show ?thesis by auto
  next
    case (Inr st1)
    from eval_token_numbers[OF cs Cons.prems Inr] have "list_all is_number st1" .
    from Cons.IH[OF this] Inr show ?thesis by simp
  qed
qed

text \<open>
  C9. When every value of \<^verbatim>\<open>constants\<close> is a number or an array, the stack holds only
  numbers after every prefix of the tokens that is processed without an exception, and
  \<^verbatim>\<open>evaluate_postfix_expression\<close> never raises one of the three errors about an operand that
  is not a number.
\<close>

theorem evaluate_only_numbers:
  assumes "numbers_or_arrays constants"
  shows
    "(\<forall>n stack. eval_tokens R constants (take n tokens) [] = Inr stack \<longrightarrow> list_all is_number stack) \<and>
     evaluate_postfix_expression R tokens constants \<noteq> Inl (ConfigError ArithmeticOnlyNumbers) \<and>
     evaluate_postfix_expression R tokens constants \<noteq> Inl (ConfigError MaxOnlyNumbers) \<and>
     evaluate_postfix_expression R tokens constants \<noteq> Inl (ConfigError AbsOnlyNumbers)"
proof -
  have *: "(\<forall>st'. eval_tokens R constants ts [] = Inr st' \<longrightarrow> list_all is_number st') \<and>
    eval_tokens R constants ts [] \<noteq> Inl (ConfigError ArithmeticOnlyNumbers) \<and>
    eval_tokens R constants ts [] \<noteq> Inl (ConfigError MaxOnlyNumbers) \<and>
    eval_tokens R constants ts [] \<noteq> Inl (ConfigError AbsOnlyNumbers)" for ts
    by (rule eval_tokens_numbers[OF assms]) simp
  have "\<forall>n stack. eval_tokens R constants (take n tokens) [] = Inr stack \<longrightarrow> list_all is_number stack"
    using * by blast
  moreover have "evaluate_postfix_expression R tokens constants \<noteq> Inl (ConfigError ArithmeticOnlyNumbers)"
    "evaluate_postfix_expression R tokens constants \<noteq> Inl (ConfigError MaxOnlyNumbers)"
    "evaluate_postfix_expression R tokens constants \<noteq> Inl (ConfigError AbsOnlyNumbers)"
    using *[of tokens]
    by (auto simp: evaluate_postfix_expression_def split: sum.splits dest: py_reprs_error)
  ultimately show ?thesis by blast
qed

theorem evaluate_only_numbers_witness:
  "numbers_or_arrays [''x'' \<mapsto> PInt 10, ''arr'' \<mapsto> PList [PInt 1 :: unit pyval]] \<and>
   eval_tokens unit_runtime [''x'' \<mapsto> PInt 10, ''arr'' \<mapsto> PList [PInt 1]] (take 2 [''x'', ''2'', ''*'']) [] =
     Inr [PInt 10, PInt 2] \<and>
   list_all is_number [PInt 10, PInt 2 :: unit pyval] \<and>
   evaluate_postfix_expression unit_runtime [''x'', ''2'', ''*''] [''x'' \<mapsto> PInt 10, ''arr'' \<mapsto> PList [PInt 1]]
     \<noteq> Inl (ConfigError ArithmeticOnlyNumbers)"
  using evaluate_only_numbers[of "[''x'' \<mapsto> PInt 10, ''arr'' \<mapsto> PList [PInt 1 :: unit pyval]]" unit_runtime "[''x'', ''2'', ''*'']"]
  by (auto simp: numbers_or_arrays_def eval_token_def py_int_eval)

section \<open>Arrays\<close>

lemma process_values_Inr:
  "process_values R xs cs = Inr ss \<longleftrightarrow> map (\<lambda>x. process_value R x cs) xs = map Inr ss"
proof (induction xs arbitrary: ss)
  case Nil
  show ?case by auto
next
  case (Cons x xs)
  show ?case
  proof (cases "process_value R x cs")
    case (Inl e)
    then show ?thesis by (auto simp: map_eq_Cons_conv)
  next
    case head: (Inr s)
    show ?thesis
    proof (cases "process_values R xs cs")
      case (Inl e)
      with head Cons.IH show ?thesis by (auto simp: map_eq_Cons_conv)
    next
      case (Inr ss')
      with head Cons.IH[of ss'] show ?thesis by (auto simp: map_eq_Cons_conv)
    qed
  qed
qed

lemma process_values_Inl:
  "map (\<lambda>x. process_value R x cs) before = map Inr ss \<Longrightarrow> process_value R x cs = Inl e \<Longrightarrow>
   process_values R (before @ x # after) cs = Inl e"
proof (induction before arbitrary: ss)
  case Nil
  then show ?case by simp
next
  case (Cons b before)
  then obtain s ss' where "process_value R b cs = Inr s"
    "map (\<lambda>x. process_value R x cs) before = map Inr ss'"
    by (auto simp: map_eq_Cons_conv)
  with Cons.IH[OF _ Cons.prems(2)] show ?case by simp
qed

text \<open>
  C8. \<^verbatim>\<open>process_value\<close> on an array transforms the elements in their order: when every
  element is transformed, to the texts \<open>ss\<close>, the result is \<^verbatim>\<open>[\<close>, the texts joined by a
  comma and a space, \<^verbatim>\<open>]\<close>, with nothing after the last one; when an element raises after
  the ones before it were transformed, the array raises the same. The empty array gives
  \<^verbatim>\<open>[]\<close>, and \<^verbatim>\<open>[1, [2, 3], 4]\<close> gives the text \<^verbatim>\<open>[1, [2, 3], 4]\<close>.
\<close>

theorem process_value_array:
  "(map (\<lambda>x. process_value R x constants) xs = map Inr ss \<longrightarrow>
      process_value R (PList xs) constants = Inr (''['' @ join '', '' ss @ '']'')) \<and>
   (map (\<lambda>x. process_value R x constants) before = map Inr ss \<and>
    process_value R x constants = Inl e \<longrightarrow>
      process_value R (PList (before @ x # after)) constants = Inl e) \<and>
   join '', '' [a, b, c] = a @ '', '' @ b @ '', '' @ c \<and>
   process_value R (PList []) constants = Inr ''[]'' \<and>
   process_value R (PList [PInt 1, PList [PInt 2, PInt 3], PInt 4]) constants =
     Inr ''[1, [2, 3], 4]''"
proof (intro conjI impI)
  assume "map (\<lambda>x. process_value R x constants) xs = map Inr ss"
  then have "process_values R xs constants = Inr ss" by (simp add: process_values_Inr)
  then show "process_value R (PList xs) constants = Inr (''['' @ join '', '' ss @ '']'')"
    by simp
next
  assume "map (\<lambda>x. process_value R x constants) before = map Inr ss \<and>
    process_value R x constants = Inl e"
  then have "process_values R (before @ x # after) constants = Inl e"
    by (auto intro: process_values_Inl)
  then show "process_value R (PList (before @ x # after)) constants = Inl e"
    by simp
next
  show "join '', '' [a, b, c] = a @ '', '' @ b @ '', '' @ c" by simp
next
  show "process_value R (PList []) constants = Inr ''[]''" by simp
next
  show "process_value R (PList [PInt 1, PList [PInt 2, PInt 3], PInt 4]) constants =
     Inr ''[1, [2, 3], 4]''"
    by (simp add: str_eval)
qed

theorem process_value_array_witness:
  "map (\<lambda>x. process_value unit_runtime x Map.empty) [PInt 7, PStr ''@(1 2 +)'', PList []] =
     map Inr [''7'', ''3'', ''[]''] \<and>
   process_value unit_runtime (PList [PInt 7, PStr ''@(1 2 +)'', PList []]) Map.empty =
     Inr ''[7, 3, []]'' \<and>
   map (\<lambda>x. process_value unit_runtime x Map.empty) [PInt 7] = map Inr [''7''] \<and>
   process_value unit_runtime PNone Map.empty = Inl (ConfigError (UnsupportedType PNone)) \<and>
   process_value unit_runtime (PList [PInt 7, PNone, PStr ''x'']) Map.empty =
     Inl (ConfigError (UnsupportedType PNone))"
  using process_value_array[of unit_runtime Map.empty "[PInt 7, PStr ''@(1 2 +)'', PList []]"
          "[''7'', ''3'', ''[]'']"]
        process_value_array[of unit_runtime Map.empty _ "[''7'']" "[PInt 7]" PNone
          "ConfigError (UnsupportedType PNone)" "[PStr ''x'']"]
  by (simp add: str_eval startswith_def endswith_def slice_2_m1_def strip_def split_def
        py_isspace_def evaluate_postfix_expression_def eval_token_def py_int_eval
        py_binop_def py_add_def)

section \<open>The two renderers of arrays\<close>





section \<open>Booleans\<close>

text \<open>
  C5. \<^verbatim>\<open>process_value\<close> raises \<^verbatim>\<open>ConfigError\<close> on a dictionary and on \<^verbatim>\<open>None\<close>, but a boolean
  passes \<^verbatim>\<open>isinstance(val, (int, float))\<close> and is rendered by \<^verbatim>\<open>str\<close> as a number would be.
\<close>

theorem process_value_boolean:
  "process_value R (PBool True) constants = Inr ''True'' \<and>
   process_value R (PBool False) constants = Inr ''False'' \<and>
   process_value R (PDict kvs) constants = Inl (ConfigError DictionariesNotAllowed) \<and>
   process_value R PNone constants = Inl (ConfigError (UnsupportedType PNone))"
  by (simp add: py_str_def)

text \<open>
  C6. The loop over the constants section accepts a boolean, bound to a constant or as
  a leaf of an array at any depth, since it passes \<^verbatim>\<open>isinstance(v, (int, float))\<close>; an
  expression that names such a constant is rendered as \<^verbatim>\<open>True\<close>.
\<close>

theorem build_constants_boolean:
  "build_constants [(''flag'', PBool True)] Map.empty = Inr [''flag'' \<mapsto> PBool True] \<and>
   build_constants [(''a'', PList [PInt 1, PList [PBool False]])] Map.empty =
     Inr [''a'' \<mapsto> PList [PInt 1, PList [PBool False]]] \<and>
   process_value R (PStr ''@(flag)'') [''flag'' \<mapsto> PBool True] = Inr ''True''"
  by (simp add: is_lower_def name_char_def is_digit_def is_number_def
        startswith_def endswith_def slice_2_m1_def strip_def split_def py_isspace_def
        evaluate_postfix_expression_def eval_token_def py_str_def max_str_digits_def)

text \<open>Strings and \<^verbatim>\<open>None\<close> are rejected, directly and inside an array.\<close>

lemma build_constants_rejects:
  "build_constants [(''s'', PStr ''x'')] Map.empty =
     Inl (ConfigError (ConstantNotNumberOrArray ''s''))"
  "build_constants [(''n'', PNone)] Map.empty =
     Inl (ConfigError (ConstantNotNumberOrArray ''n''))"
  "build_constants [(''a'', PList [PInt 1, PList [PNone]])] Map.empty =
     Inl (ConfigError ArrayOnlyNumbers)"
  by (simp_all add: is_lower_def name_char_def is_digit_def is_number_def)

section \<open>Expression strings\<close>







subsection \<open>The tokens of \<^verbatim>\<open>split\<close>\<close>

lemma split_from_tokens:
  "\<forall>c \<in> set w. \<not> py_isspace c \<Longrightarrow>
   \<forall>t \<in> set (split_from w s). t \<noteq> [] \<and> (\<forall>c \<in> set t. \<not> py_isspace c)"
proof (induction s arbitrary: w)
  case Nil
  then show ?case by simp
next
  case (Cons a s)
  have nil: "\<forall>t \<in> set (split_from [] s). t \<noteq> [] \<and> (\<forall>c \<in> set t. \<not> py_isspace c)"
    by (rule Cons.IH) simp
  show ?case
  proof (cases "py_isspace a")
    case True
    with nil Cons.prems show ?thesis by simp
  next
    case False
    with Cons.prems have "\<forall>c \<in> set (w @ [a]). \<not> py_isspace c" by simp
    from Cons.IH[OF this] False show ?thesis by simp
  qed
qed

lemma split_tokens: "t \<in> set (split s) \<Longrightarrow> t \<noteq> [] \<and> (\<forall>c \<in> set t. \<not> py_isspace c)"
  using split_from_tokens[of "[]" s] by (simp add: split_def)







subsection \<open>What \<^verbatim>\<open>strip\<close> removes\<close>





subsection \<open>The text of the result\<close>






end
